theory Spec2Isabelle
  imports
    Complex_Main
    "HOL-Library.AList"
    "HOL-Library.Char_ord"
    "HOL-Library.List_Lexorder"
begin

section \<open>Time formatting (helpers.py)\<close>

text \<open>
  \<^verbatim>\<open>convert_seconds_to_hms\<close> works on Python's unbounded integers; \<^verbatim>\<open>//\<close> and
  \<^verbatim>\<open>%\<close> are floor division and its remainder, which is what \<open>div\<close> and \<open>mod\<close>
  are on \<^typ>\<open>int\<close>. The argument is the session time, an integer already, so
  the leading \<^verbatim>\<open>int(...)\<close> conversion is the identity.
\<close>

definition convert_seconds_to_hms :: "int \<Rightarrow> int \<times> int \<times> int" where
  "convert_seconds_to_hms total_seconds =
     (let hours = total_seconds div 3600;
          remaining_seconds = total_seconds mod 3600;
          minutes = remaining_seconds div 60;
          seconds = remaining_seconds mod 60
      in (hours, minutes, seconds))"

section \<open>The timer (project\_timer.py)\<close>

subsection \<open>Data\<close>

datatype TimerStatus = STOPPED | PAUSED | RUNNING

datatype error = KeyError | IndexError

text \<open>
  Hours are Python numbers: the integer \<^verbatim>\<open>0\<close> and floats produced by
  \<^verbatim>\<open>round(self.session_time / 3600, 1)\<close>, by \<^verbatim>\<open>+\<close> and by \<^verbatim>\<open>round(x, 1)\<close>.
  Binary floating point is not available in HOL, so the type of hours is a
  type variable and the four operations the program uses on it are taken as
  parameters. So is \<^verbatim>\<open>str.strip()\<close>, which removes the white space of
  Unicode from both ends of a name. Every general statement below holds for
  all values of these parameters.
\<close>

record 'h py_ops =
  fzero :: 'h                    \<comment> \<open>the integer \<^verbatim>\<open>0\<close>\<close>
  fadd :: "'h \<Rightarrow> 'h \<Rightarrow> 'h"         \<comment> \<open>\<^verbatim>\<open>a + b\<close>\<close>
  round1 :: "'h \<Rightarrow> 'h"            \<comment> \<open>\<^verbatim>\<open>round(x, 1)\<close>\<close>
  hours_of :: "int \<Rightarrow> 'h"         \<comment> \<open>\<^verbatim>\<open>round(session_time / 3600, 1)\<close>\<close>
  strip :: "string \<Rightarrow> string"    \<comment> \<open>\<^verbatim>\<open>name.strip()\<close>\<close>

text \<open>
  A dictionary keeps its keys in insertion order, and the program depends on
  that order (\<^verbatim>\<open>list(self.projects_data.keys())[1]\<close>, the iteration in
  \<^verbatim>\<open>get_most_recent_project\<close>): a dictionary is an association list, read
  with \<^const>\<open>map_of\<close> and assigned with \<^const>\<open>AList.update\<close>, which replaces
  the value of a key that is present in place and appends a new key at the
  end. Time stamps are the ISO strings the program uses as keys; Python
  compares them as strings, which is the lexicographic order on
  \<^typ>\<open>string\<close>.
\<close>

type_synonym 'h time_log = "(string \<times> 'h) list"
type_synonym 'h projects = "(string \<times> 'h time_log) list"

text \<open>
  The fields of \<^verbatim>\<open>ProjectTimer\<close> that the timer logic reads and writes.
  \<open>data_file\<close> is the content of \<^verbatim>\<open>projects_data.json\<close> (\<open>None\<close> when the
  file does not exist); \<open>alarms\<close> counts the calls of \<^verbatim>\<open>alarm()\<close>. Widgets,
  window titles and log lines are not part of the state.
\<close>

record 'h timer =
  status :: TimerStatus
  session_time :: int
  current_project :: "string option"
  current_project_hours :: 'h
  projects_data :: "'h projects"
  data_file :: "'h projects option"
  alarms :: nat

text \<open>Python's truth value of \<^verbatim>\<open>self.current_project\<close>: \<^verbatim>\<open>None\<close> and the empty
  string are false.\<close>

definition truthy :: "string option \<Rightarrow> bool" where
  "truthy p = (case p of None \<Rightarrow> False | Some n \<Rightarrow> n \<noteq> [])"

subsection \<open>Starting, pausing, ticking\<close>

definition pause_timer :: "'h timer \<Rightarrow> 'h timer" where
  "pause_timer s = s\<lparr>status := PAUSED\<rparr>"

definition alarm :: "'h timer \<Rightarrow> 'h timer" where
  "alarm s = s\<lparr>alarms := Suc (alarms s)\<rparr>"

text \<open>
  \<^verbatim>\<open>update_display\<close> is the tick: it is what \<^verbatim>\<open>root.after(1000, ...)\<close> runs
  every second while the timer runs, and what \<^verbatim>\<open>resume_timer\<close> and
  \<^verbatim>\<open>inc_session_time\<close> call directly. The texts it writes to the widgets are
  not modelled.
\<close>

definition update_display :: "'h timer \<Rightarrow> 'h timer" where
  "update_display s =
     (let s1 = (if status s \<noteq> PAUSED
                then (if current_project s = Some ''CountDown''
                      then s\<lparr>session_time := session_time s - 1\<rparr>
                      else s\<lparr>session_time := session_time s + 1\<rparr>)
                else s)
      in if session_time s1 < 0
         then alarm (pause_timer (s1\<lparr>session_time := 0\<rparr>))
         else s1)"

definition resume_timer :: "'h timer \<Rightarrow> 'h timer" where
  "resume_timer s = update_display (s\<lparr>status := RUNNING\<rparr>)"

definition toggle_timer :: "'h timer \<Rightarrow> 'h timer" where
  "toggle_timer s = (if status s = RUNNING then pause_timer s else resume_timer s)"

definition inc_session_time :: "int \<Rightarrow> 'h timer \<Rightarrow> 'h timer" where
  "inc_session_time delta s =
     (let s1 = (if status s \<noteq> PAUSED then pause_timer s else s);
          s2 = (if delta = 0 then s1\<lparr>session_time := 0\<rparr>
                else (let s3 = s1\<lparr>session_time := session_time s1 + delta\<rparr>
                      in if session_time s3 < 0 then s3\<lparr>session_time := 0\<rparr> else s3))
      in update_display s2)"

subsection \<open>The record of projects\<close>

text \<open>
  \<^verbatim>\<open>save_data\<close> assigns the entry for the time stamp \<open>now\<close>
  (\<^verbatim>\<open>datetime.now().isoformat(timespec='seconds')\<close>, an input here) in the log
  of the current project and rewrites the file. Looking up a current project
  that is \<^verbatim>\<open>None\<close> or not a key raises \<^verbatim>\<open>KeyError\<close> before anything is
  changed; the error carries the state at the raise. The write of the file is
  taken to succeed (a failing write is caught and printed by the program).
\<close>

definition save_data :: "'h py_ops \<Rightarrow> string \<Rightarrow> 'h timer \<Rightarrow> error \<times> 'h timer + 'h timer" where
  "save_data ops now s =
     (if current_project s \<noteq> Some ''CountDown''
      then (case current_project s of
              None \<Rightarrow> Inl (KeyError, s)
            | Some p \<Rightarrow>
                (case map_of (projects_data s) p of
                   None \<Rightarrow> Inl (KeyError, s)
                 | Some entries \<Rightarrow>
                     (let pd = AList.update p
                                 (AList.update now (hours_of ops (session_time s)) entries)
                                 (projects_data s)
                      in Inr (s\<lparr>projects_data := pd, data_file := Some pd\<rparr>))))
      else Inr s)"

definition get_project_total_time ::
    "'h py_ops \<Rightarrow> 'h timer \<Rightarrow> string option \<Rightarrow> error + 'h" where
  "get_project_total_time ops s project_name =
     (if \<not> truthy (current_project s) then Inr (fzero ops)
      else (case project_name of
              None \<Rightarrow> Inl KeyError
            | Some n \<Rightarrow>
                (case map_of (projects_data s) n of
                   None \<Rightarrow> Inl KeyError
                 | Some entries \<Rightarrow>
                     Inr (round1 ops (foldl (fadd ops) (fzero ops) (map snd entries))))))"

text \<open>
  The two nested loops of \<^verbatim>\<open>get_most_recent_project\<close> carry the pair
  (\<^verbatim>\<open>most_recent_project\<close>, \<^verbatim>\<open>most_recent_date\<close>); \<^verbatim>\<open>not most_recent_date\<close>
  holds for \<^verbatim>\<open>None\<close> and for the empty string.
\<close>

definition scan_date :: "string \<Rightarrow> string \<Rightarrow> string option \<times> string option
    \<Rightarrow> string option \<times> string option" where
  "scan_date project_name date acc =
     (case acc of (most_recent_project, most_recent_date) \<Rightarrow>
        (if (case most_recent_date of None \<Rightarrow> True | Some d \<Rightarrow> d = [] \<or> date > d)
         then (Some project_name, Some date)
         else acc))"

definition scan_project :: "string \<times> 'h time_log \<Rightarrow> string option \<times> string option
    \<Rightarrow> string option \<times> string option" where
  "scan_project p acc = fold (scan_date (fst p)) (map fst (snd p)) acc"

definition get_most_recent_project :: "'h timer \<Rightarrow> error + string option" where
  "get_most_recent_project s =
     (if projects_data s = [] then Inr None
      else (case fold scan_project (projects_data s) (None, None) of
              (most_recent_project, most_recent_date) \<Rightarrow>
                (if most_recent_project = None
                 then (case projects_data s of
                         _ # (k, _) # _ \<Rightarrow> Inr (Some k)
                       | _ \<Rightarrow> Inl IndexError)
                 else Inr most_recent_project)))"

text \<open>
  What the scan is meant to find, for stating its result: \<open>acc\<close> is a
  latest pair of the set \<open>S\<close> of (project, time stamp) pairs when it names
  a pair of \<open>S\<close> whose time stamp is not before any other of \<open>S\<close>, and is
  still unset when \<open>S\<close> is empty.
\<close>

definition latest_of :: "(string \<times> string) set \<Rightarrow> string option \<times> string option \<Rightarrow> bool" where
  "latest_of S acc =
     (case acc of
        (Some p, Some d) \<Rightarrow> (p, d) \<in> S \<and> (\<forall>(q, e) \<in> S. e \<le> d)
      | (None, None) \<Rightarrow> S = {}
      | _ \<Rightarrow> False)"

definition stamps :: "'h projects \<Rightarrow> (string \<times> string) set" where
  "stamps pd = (\<Union>(p, entries) \<in> set pd. {p} \<times> fst ` set entries)"

subsection \<open>Selecting, creating, closing\<close>

text \<open>
  \<^verbatim>\<open>on_project_selected\<close> returns \<^verbatim>\<open>0\<close> when the selected name is neither the
  countdown nor a key of the record, and \<^verbatim>\<open>None\<close> otherwise. \<open>selected\<close> is
  the text of the combobox.
\<close>

definition on_project_selected ::
    "'h py_ops \<Rightarrow> string \<Rightarrow> string \<Rightarrow> 'h timer \<Rightarrow> error \<times> 'h timer + int option \<times> 'h timer" where
  "on_project_selected ops now selected s =
     (case (if session_time s > 0 \<and> truthy (current_project s)
            then save_data ops now s else Inr s) of
        Inl e \<Rightarrow> Inl e
      | Inr s1 \<Rightarrow>
          (if selected = ''CountDown''
           then Inr (None, s1\<lparr>current_project := Some ''CountDown'',
                              current_project_hours := fzero ops,
                              session_time := 3600\<rparr>)
           else if selected \<in> set (map fst (projects_data s1))
           then (let s2 = s1\<lparr>current_project := Some selected\<rparr>
                 in (case get_project_total_time ops s2 (current_project s2) of
                       Inl e \<Rightarrow> Inl (e, s2)
                     | Inr h \<Rightarrow> Inr (None, s2\<lparr>current_project_hours := h,
                                              session_time := 0\<rparr>)))
           else Inr (Some 0, s1)))"

text \<open>\<open>typed\<close> is the text of the combobox when \<^verbatim>\<open>add_new_project\<close> runs.\<close>

definition add_new_project ::
    "'h py_ops \<Rightarrow> string \<Rightarrow> string \<Rightarrow> 'h timer \<Rightarrow> error \<times> 'h timer + 'h timer" where
  "add_new_project ops now typed s =
     (let project_name = strip ops typed
      in if project_name \<noteq> [] \<and> project_name \<notin> set (map fst (projects_data s))
         then (case save_data ops now
                      (s\<lparr>projects_data := AList.update project_name [] (projects_data s),
                         current_project := Some project_name\<rparr>) of
                 Inl e \<Rightarrow> Inl e
               | Inr s1 \<Rightarrow> Inr (s1\<lparr>current_project_hours := fzero ops\<rparr>))
         else Inr s)"

definition on_closing :: "'h py_ops \<Rightarrow> string \<Rightarrow> 'h timer \<Rightarrow> error \<times> 'h timer + 'h timer" where
  "on_closing ops now s =
     save_data ops now (if status s = RUNNING then pause_timer s else s)"

subsection \<open>Start of the program\<close>

definition update_project_list :: "'h timer \<Rightarrow> 'h timer" where
  "update_project_list s =
     (if \<not> truthy (current_project s) then s\<lparr>current_project := Some ''CountDown''\<rparr> else s)"

text \<open>\<open>file\<close> is the record read from the data file, \<open>None\<close> when the file is
  missing or cannot be parsed.\<close>

definition load_data :: "'h py_ops \<Rightarrow> 'h projects option \<Rightarrow> 'h timer \<Rightarrow> 'h timer" where
  "load_data ops file s =
     (case file of
        None \<Rightarrow> s\<lparr>projects_data := [], current_project := None\<rparr>
      | Some pd \<Rightarrow>
          (let s1 = s\<lparr>projects_data := pd\<rparr>
           in (case get_most_recent_project s1 of
                 Inl e \<Rightarrow> s1\<lparr>projects_data := [], current_project := None\<rparr>
               | Inr p \<Rightarrow>
                   (let s2 = s1\<lparr>current_project := p\<rparr>
                    in if truthy p
                       then (case get_project_total_time ops s2 p of
                               Inl e \<Rightarrow> s2\<lparr>projects_data := [], current_project := None\<rparr>
                             | Inr h \<Rightarrow> s2\<lparr>current_project_hours := h\<rparr>)
                       else s2\<lparr>current_project_hours := fzero ops\<rparr>))))"

definition init :: "'h py_ops \<Rightarrow> 'h projects option \<Rightarrow> 'h timer" where
  "init ops file =
     update_project_list
       (load_data ops file
          \<lparr>status = STOPPED, session_time = 0, current_project = None,
           current_project_hours = fzero ops, projects_data = [],
           data_file = file, alarms = 0\<rparr>)"

subsection \<open>Runs of the program\<close>

text \<open>
  The handlers that the window binds to its buttons, its combobox, its timer
  and its close button. A handler that raises leaves the program running in
  the state it had at the raise (the toolkit reports the exception and goes
  on), so \<open>step\<close> is the state at the end of the handler in either case.
  Events that can no longer happen after a completed close are not excluded:
  a run is any list of events.
\<close>

datatype event =
    Tick
  | Start
  | Pause
  | Toggle
  | Adjust int
  | Select string string
  | Create string string
  | Close string

fun step :: "'h py_ops \<Rightarrow> event \<Rightarrow> 'h timer \<Rightarrow> 'h timer" where
  "step ops Tick s = update_display s"
| "step ops Start s = resume_timer s"
| "step ops Pause s = pause_timer s"
| "step ops Toggle s = toggle_timer s"
| "step ops (Adjust delta) s = inc_session_time delta s"
| "step ops (Select now selected) s =
     (case on_project_selected ops now selected s of
        Inl (e, s') \<Rightarrow> s' | Inr (r, s') \<Rightarrow> s')"
| "step ops (Create now typed) s =
     (case add_new_project ops now typed s of Inl (e, s') \<Rightarrow> s' | Inr s' \<Rightarrow> s')"
| "step ops (Close now) s =
     (case on_closing ops now s of Inl (e, s') \<Rightarrow> s' | Inr s' \<Rightarrow> s')"

definition run :: "'h py_ops \<Rightarrow> event list \<Rightarrow> 'h timer \<Rightarrow> 'h timer" where
  "run ops evs s = fold (step ops) evs s"

text \<open>
  The timer callbacks. \<^verbatim>\<open>update_display\<close> ends with
  \<^verbatim>\<open>if self.status == TimerStatus.RUNNING: self.root.after(1000, self.update_display)\<close>:
  each call of it registers one callback exactly when it leaves the timer
  running, and nothing else registers one. A tick is such a callback being
  run, which uses it up. \<open>scheduled e s n\<close> is the number of registered
  callbacks after the handler of \<open>e\<close>, entered in the state \<open>s\<close> with \<open>n\<close>
  of them registered. The program performs a list of events from \<open>s\<close> and
  \<open>n\<close> when each tick in it finds a registered callback.
\<close>

fun scheduled :: "event \<Rightarrow> 'h timer \<Rightarrow> nat \<Rightarrow> nat" where
  "scheduled Tick s n = n - 1 + (if status (update_display s) = RUNNING then 1 else 0)"
| "scheduled Start s n = n + (if status (resume_timer s) = RUNNING then 1 else 0)"
| "scheduled Pause s n = n"
| "scheduled Toggle s n =
     (if status s = RUNNING then n
      else n + (if status (resume_timer s) = RUNNING then 1 else 0))"
| "scheduled (Adjust delta) s n =
     n + (if status (inc_session_time delta s) = RUNNING then 1 else 0)"
| "scheduled (Select now selected) s n = n"
| "scheduled (Create now typed) s n = n"
| "scheduled (Close now) s n = n"

fun performs :: "'h py_ops \<Rightarrow> event list \<Rightarrow> 'h timer \<Rightarrow> nat \<Rightarrow> bool" where
  "performs ops [] s n = True"
| "performs ops (e # evs) s n =
     ((e = Tick \<longrightarrow> 0 < n) \<and> performs ops evs (step ops e s) (scheduled e s n))"

text \<open>The current project can be looked up: it is unset, the countdown, or a
  key of the record.\<close>

definition consistent :: "'h timer \<Rightarrow> bool" where
  "consistent s =
     (case current_project s of
        None \<Rightarrow> True
      | Some p \<Rightarrow> p = ''CountDown'' \<or> p \<in> set (map fst (projects_data s)))"

subsection \<open>Operations for concrete runs\<close>

text \<open>
  To evaluate a run on concrete data the parameters have to be given.
  \<open>decimal_ops\<close> computes the number operations exactly on rational
  numbers, rounding to the nearest tenth (a tie goes to the even tenth), and
  strips the white space of ASCII (tab to carriage return, the four
  separators \<^verbatim>\<open>0x1C\<close> to \<^verbatim>\<open>0x1F\<close>, and the space). It is used below only
  where Python gives the same results: sessions of 0, 1 and 1800 seconds are
  0.0, 0.0 and 0.5 hours, 0 + 0.5 + 0.3 rounds to 0.8, and the names are
  strings of ASCII characters, on which \<^verbatim>\<open>str.strip()\<close> removes just that
  white space.
\<close>

definition round_tenth :: "rat \<Rightarrow> rat" where
  "round_tenth x =
     (let t = x * 10; f = \<lfloor>t\<rfloor>; d = t - of_int f
      in of_int (if d < 1 / 2 \<or> (d = 1 / 2 \<and> even f) then f else f + 1) / 10)"

definition isspace_ascii :: "char \<Rightarrow> bool" where
  "isspace_ascii c = (c \<in> set [CHR 0x09, CHR 0x0A, CHR 0x0B, CHR 0x0C, CHR 0x0D,
                               CHR 0x1C, CHR 0x1D, CHR 0x1E, CHR 0x1F, CHR 0x20])"

definition strip_ascii :: "string \<Rightarrow> string" where
  "strip_ascii s = rev (dropWhile isspace_ascii (rev (dropWhile isspace_ascii s)))"

definition decimal_ops :: "rat py_ops" where
  "decimal_ops = \<lparr>fzero = 0, fadd = (+), round1 = round_tenth,
                   hours_of = (\<lambda>s. round_tenth (of_int s / 3600)),
                   strip = strip_ascii\<rparr>"

section \<open>Time formatting: the decomposition\<close>

lemma hms_bound_aux:
  "0 \<le> r \<Longrightarrow> r < 3600 \<Longrightarrow> 0 \<le> t \<Longrightarrow> t < 60 \<Longrightarrow> m * 60 + t = r
     \<Longrightarrow> 0 \<le> m \<and> m < (60::int)"
  by linarith

lemma hms_sum_aux:
  "m * 60 + t = r \<Longrightarrow> h * 3600 + r = s \<Longrightarrow> h * 3600 + m * 60 + t = (s::int)"
  by simp

lemma hms_seconds: "(s::int) mod 3600 mod 60 = s mod 60"
  by (simp add: mod_mod_cancel)

lemma hms_minutes: "0 \<le> (s::int) mod 3600 div 60 \<and> s mod 3600 div 60 < 60"
  by (rule hms_bound_aux [where r = "s mod 3600" and t = "s mod 3600 mod 60"]) simp_all

lemma hms_sum: "(s::int) div 3600 * 3600 + s mod 3600 div 60 * 60 + s mod 3600 mod 60 = s"
  by (rule hms_sum_aux [where r = "s mod 3600"]) simp_all

lemma hms_hours: "0 \<le> s \<Longrightarrow> 0 \<le> (s::int) div 3600"
  by (simp add: pos_imp_zdiv_nonneg_iff)

text \<open>
  C9. For every non-negative number of seconds \<open>s\<close> the three fields are
  \<open>s div 3600\<close>, \<open>(s mod 3600) div 60\<close> and \<open>s mod 60\<close>; they add up to \<open>s\<close>
  again; \<open>0\<close> gives \<open>(0, 0, 0)\<close>; and the hours field is not reduced modulo
  24: \<open>s\<close> whole hours give the hours field \<open>s\<close>, however large \<open>s\<close> is.
\<close>

theorem convert_seconds_to_hms_fields:
  assumes "0 \<le> s"
  shows "(case convert_seconds_to_hms s of (hours, minutes, seconds) \<Rightarrow>
           hours = s div 3600 \<and> minutes = (s mod 3600) div 60 \<and> seconds = s mod 60 \<and>
           hours * 3600 + minutes * 60 + seconds = s \<and>
           0 \<le> hours \<and> 0 \<le> minutes \<and> minutes < 60 \<and> 0 \<le> seconds \<and> seconds < 60) \<and>
         convert_seconds_to_hms 0 = (0, 0, 0) \<and>
         convert_seconds_to_hms (s * 3600) = (s, 0, 0)"
proof -
  have fields: "convert_seconds_to_hms s = (s div 3600, s mod 3600 div 60, s mod 60)"
    by (simp add: convert_seconds_to_hms_def Let_def hms_seconds)
  have total: "s div 3600 * 3600 + s mod 3600 div 60 * 60 + s mod 60 = s"
    using hms_sum [of s] by (simp only: hms_seconds)
  have range: "0 \<le> s mod 60 \<and> s mod 60 < 60"
    by simp
  have zero: "convert_seconds_to_hms 0 = (0, 0, 0)"
    by (simp add: convert_seconds_to_hms_def)
  have whole: "convert_seconds_to_hms (s * 3600) = (s, 0, 0)"
    by (simp add: convert_seconds_to_hms_def)
  show ?thesis
    unfolding fields using total range hms_minutes [of s] hms_hours [OF assms] zero whole
    by (simp only: prod.case simp_thms)
qed

theorem convert_seconds_to_hms_fields_witness:
  "(0::int) \<le> 90061 \<and> convert_seconds_to_hms 90061 = (25, 1, 1) \<and>
   convert_seconds_to_hms (90061 * 3600) = (90061, 0, 0)"
proof -
  have "convert_seconds_to_hms 90061 = (25, 1, 1)"
    by (simp add: convert_seconds_to_hms_def)
  with convert_seconds_to_hms_fields [of 90061] show ?thesis
    by (simp only: simp_thms)
qed

section \<open>The tick\<close>

lemma update_display_paused:
  "status s = PAUSED \<Longrightarrow> 0 \<le> session_time s \<Longrightarrow> update_display s = s"
  by (simp add: update_display_def)

lemma update_display_nonneg: "0 \<le> session_time (update_display s)"
  by (simp add: update_display_def Let_def alarm_def pause_timer_def)

lemma update_display_accrual:
  "status s \<noteq> PAUSED \<Longrightarrow>
     session_time (update_display s) =
       max 0 (if current_project s = Some ''CountDown''
              then session_time s - 1 else session_time s + 1)"
  by (simp add: update_display_def Let_def alarm_def pause_timer_def max_def)

lemma update_display_alarm:
  "alarms (update_display s) = alarms s \<and> status (update_display s) = status s \<or>
   alarms (update_display s) = Suc (alarms s) \<and> status (update_display s) = PAUSED \<and>
     session_time (update_display s) = 0"
  by (simp add: update_display_def Let_def alarm_def pause_timer_def)

lemma update_display_countdown:
  "current_project s = Some ''CountDown'' \<Longrightarrow> status s \<noteq> PAUSED \<Longrightarrow> 0 < session_time s
     \<Longrightarrow> update_display s = s\<lparr>session_time := session_time s - 1\<rparr>"
  by (simp add: update_display_def Let_def)

lemma countdown_tick_at_zero:
  "current_project s = Some ''CountDown'' \<Longrightarrow> status s \<noteq> PAUSED \<Longrightarrow> session_time s = 0
     \<Longrightarrow> update_display s = s\<lparr>session_time := 0, status := PAUSED, alarms := Suc (alarms s)\<rparr>"
  by (simp add: update_display_def Let_def alarm_def pause_timer_def)

lemma countdown_ticks:
  "current_project s = Some ''CountDown'' \<Longrightarrow> status s \<noteq> PAUSED \<Longrightarrow> int n \<le> session_time s
     \<Longrightarrow> (update_display ^^ n) s = s\<lparr>session_time := session_time s - int n\<rparr>"
proof (induction n)
  case 0
  then show ?case by simp
next
  case (Suc n)
  let ?t = "s\<lparr>session_time := session_time s - int n\<rparr>"
  have "(update_display ^^ n) s = ?t"
    using Suc by simp
  then have "(update_display ^^ Suc n) s = update_display ?t"
    by simp
  also have "\<dots> = ?t\<lparr>session_time := session_time ?t - 1\<rparr>"
    using Suc.prems by (intro update_display_countdown) simp_all
  also have "\<dots> = s\<lparr>session_time := session_time s - int (Suc n)\<rparr>"
    by (simp add: algebra_simps)
  finally show ?case .
qed

lemma paused_ticks:
  "status s = PAUSED \<Longrightarrow> 0 \<le> session_time s \<Longrightarrow> (update_display ^^ n) s = s"
  by (induction n) (simp_all add: update_display_paused)

lemma countdown_hour:
  assumes "current_project s = Some ''CountDown''" "status s \<noteq> PAUSED" "session_time s = 3600"
  shows "(update_display ^^ 3600) s = s\<lparr>session_time := 0\<rparr>"
    and "(update_display ^^ 3601) s =
           s\<lparr>session_time := 0, status := PAUSED, alarms := Suc (alarms s)\<rparr>"
proof -
  show hour: "(update_display ^^ 3600) s = s\<lparr>session_time := 0\<rparr>"
    using countdown_ticks [of s 3600] assms by simp
  have "(3601::nat) = Suc 3600"
    by simp
  then have "(update_display ^^ 3601) s = update_display ((update_display ^^ 3600) s)"
    by (simp only: funpow.simps o_apply)
  also have "\<dots> = update_display (s\<lparr>session_time := 0\<rparr>)"
    by (simp only: hour)
  also have "\<dots> = s\<lparr>session_time := 0, status := PAUSED, alarms := Suc (alarms s)\<rparr>"
    using assms by (simp add: countdown_tick_at_zero)
  finally show "(update_display ^^ 3601) s =
      s\<lparr>session_time := 0, status := PAUSED, alarms := Suc (alarms s)\<rparr>" .
qed

lemma save_data_cases:
  "save_data ops now s = Inr s' \<Longrightarrow>
     session_time s' = session_time s \<and> status s' = status s \<and> alarms s' = alarms s \<and>
     current_project s' = current_project s \<and> current_project_hours s' = current_project_hours s"
  "save_data ops now s = Inl (e, s') \<Longrightarrow> s' = s"
  by (auto simp: save_data_def Let_def split: if_splits option.splits)

lemma save_data_consistent:
  "consistent s \<Longrightarrow> truthy (current_project s) \<Longrightarrow> \<exists>s'. save_data ops now s = Inr s'"
  by (auto simp: save_data_def consistent_def truthy_def Let_def map_of_eq_None_iff
      split: option.splits)

lemma select_countdown:
  assumes "consistent s"
  shows "\<exists>s'. on_project_selected ops now ''CountDown'' s = Inr (None, s') \<and>
           session_time s' = 3600 \<and> current_project s' = Some ''CountDown'' \<and>
           status s' = status s \<and> alarms s' = alarms s"
proof (cases "0 < session_time s \<and> truthy (current_project s)")
  case True
  with assms obtain s1 where "save_data ops now s = Inr s1"
    using save_data_consistent by blast
  with True show ?thesis
    by (auto simp: on_project_selected_def dest: save_data_cases(1))
next
  case False
  then show ?thesis
    by (auto simp: on_project_selected_def)
qed

text \<open>
  C2 (as the program has it). Selecting the countdown sets the session time
  to 3600 in every state whose current project can be looked up, and leaves
  the status as it is. From a countdown at 3600 that is not paused, 3600
  ticks bring the session time to exactly 0 without an alarm; the alarm is
  raised by the next tick, the 3601st, which finds the time below zero, sets
  it to 0 and pauses. Starting the timer performs one tick itself, so a start
  followed by 3600 ticks raises exactly one alarm. After any tick the session
  time is not negative; a tick raises at most one alarm, and when it raises
  one it leaves the timer paused at 0, where further ticks change nothing.
\<close>

theorem countdown_alarm_on_tick_below_zero:
  "(consistent s \<longrightarrow>
      (\<exists>s'. on_project_selected ops now ''CountDown'' s = Inr (None, s') \<and>
         session_time s' = 3600 \<and> current_project s' = Some ''CountDown'' \<and>
         status s' = status s \<and> alarms s' = alarms s)) \<and>
   (current_project s = Some ''CountDown'' \<and> status s \<noteq> PAUSED \<and> session_time s = 3600 \<longrightarrow>
      (update_display ^^ 3600) s = s\<lparr>session_time := 0\<rparr> \<and>
      (update_display ^^ 3601) s =
         s\<lparr>session_time := 0, status := PAUSED, alarms := Suc (alarms s)\<rparr>) \<and>
   (current_project s = Some ''CountDown'' \<and> session_time s = 3600 \<longrightarrow>
      (update_display ^^ 3600) (resume_timer s) =
         s\<lparr>session_time := 0, status := PAUSED, alarms := Suc (alarms s)\<rparr>) \<and>
   0 \<le> session_time (update_display s) \<and>
   (alarms (update_display s) = alarms s \<and> status (update_display s) = status s \<or>
    alarms (update_display s) = Suc (alarms s) \<and> status (update_display s) = PAUSED \<and>
      session_time (update_display s) = 0) \<and>
   (status s = PAUSED \<and> 0 \<le> session_time s \<longrightarrow> (update_display ^^ n) s = s)"
proof -
  have started: "(update_display ^^ 3600) (resume_timer s) =
      s\<lparr>session_time := 0, status := PAUSED, alarms := Suc (alarms s)\<rparr>"
    if cd: "current_project s = Some ''CountDown''" and hour: "session_time s = 3600"
  proof -
    let ?r = "s\<lparr>status := RUNNING\<rparr>"
    have "(3601::nat) = Suc 3600"
      by simp
    then have "(update_display ^^ 3601) ?r = (update_display ^^ 3600) (update_display ?r)"
      by (simp only: funpow_Suc_right o_apply)
    then have "(update_display ^^ 3600) (resume_timer s) = (update_display ^^ 3601) ?r"
      by (simp add: resume_timer_def)
    also have "\<dots> = ?r\<lparr>session_time := 0, status := PAUSED, alarms := Suc (alarms ?r)\<rparr>"
      using cd hour by (intro countdown_hour(2)) simp_all
    finally show ?thesis
      by simp
  qed
  show ?thesis
    using select_countdown [of s ops now] countdown_hour [of s] started
      update_display_nonneg [of s] update_display_alarm [of s] paused_ticks [of s n]
    by blast
qed

theorem countdown_alarm_on_tick_below_zero_witness:
  "consistent \<lparr>status = RUNNING, session_time = 3600, current_project = Some ''CountDown'',
      current_project_hours = 0, projects_data = [(''A'', [])], data_file = None, alarms = 0\<rparr> \<and>
   (update_display ^^ 3601)
     \<lparr>status = RUNNING, session_time = 3600, current_project = Some ''CountDown'',
      current_project_hours = 0, projects_data = [(''A'', [])], data_file = None, alarms = 0\<rparr> =
     \<lparr>status = PAUSED, session_time = 0, current_project = Some ''CountDown'',
      current_project_hours = (0::rat), projects_data = [(''A'', [])], data_file = None,
      alarms = 1\<rparr> \<and>
   (update_display ^^ 5)
     \<lparr>status = PAUSED, session_time = 0, current_project = Some ''CountDown'',
      current_project_hours = (0::rat), projects_data = [(''A'', [])], data_file = None,
      alarms = 1\<rparr> =
     \<lparr>status = PAUSED, session_time = 0, current_project = Some ''CountDown'',
      current_project_hours = (0::rat), projects_data = [(''A'', [])], data_file = None,
      alarms = 1\<rparr>"
  using countdown_alarm_on_tick_below_zero
    [of "\<lparr>status = RUNNING, session_time = 3600, current_project = Some ''CountDown'',
      current_project_hours = (0::rat), projects_data = [(''A'', [])], data_file = None,
      alarms = 0\<rparr>" decimal_ops "''2024-05-02T09:00:00''" 5]
    countdown_alarm_on_tick_below_zero
    [of "\<lparr>status = PAUSED, session_time = 0, current_project = Some ''CountDown'',
      current_project_hours = (0::rat), projects_data = [(''A'', [])], data_file = None,
      alarms = 1\<rparr>" decimal_ops "''2024-05-02T09:00:00''" 5]
  by (simp add: consistent_def)

theorem countdown_3600_ticks_counterexample:
  "run decimal_ops [Create ''2024-05-02T09:00:00'' ''A'', Start,
      Select ''2024-05-02T09:00:05'' ''CountDown''] (init decimal_ops None) =
     \<lparr>status = RUNNING, session_time = 3600, current_project = Some ''CountDown'',
      current_project_hours = 0,
      projects_data = [(''A'', [(''2024-05-02T09:00:00'', 0), (''2024-05-02T09:00:05'', 0)])],
      data_file = Some [(''A'', [(''2024-05-02T09:00:00'', 0), (''2024-05-02T09:00:05'', 0)])],
      alarms = 0\<rparr> \<and>
   session_time ((update_display ^^ 3600)
     \<lparr>status = RUNNING, session_time = 3600, current_project = Some ''CountDown'',
      current_project_hours = (0::rat),
      projects_data = [(''A'', [(''2024-05-02T09:00:00'', 0), (''2024-05-02T09:00:05'', 0)])],
      data_file = Some [(''A'', [(''2024-05-02T09:00:00'', 0), (''2024-05-02T09:00:05'', 0)])],
      alarms = 0\<rparr>) = 0 \<and>
   alarms ((update_display ^^ 3600)
     \<lparr>status = RUNNING, session_time = 3600, current_project = Some ''CountDown'',
      current_project_hours = (0::rat),
      projects_data = [(''A'', [(''2024-05-02T09:00:00'', 0), (''2024-05-02T09:00:05'', 0)])],
      data_file = Some [(''A'', [(''2024-05-02T09:00:00'', 0), (''2024-05-02T09:00:05'', 0)])],
      alarms = 0\<rparr>) \<noteq> 1"
proof -
  have "run decimal_ops [Create ''2024-05-02T09:00:00'' ''A'', Start,
      Select ''2024-05-02T09:00:05'' ''CountDown''] (init decimal_ops None) =
     \<lparr>status = RUNNING, session_time = 3600, current_project = Some ''CountDown'',
      current_project_hours = 0,
      projects_data = [(''A'', [(''2024-05-02T09:00:00'', 0), (''2024-05-02T09:00:05'', 0)])],
      data_file = Some [(''A'', [(''2024-05-02T09:00:00'', 0), (''2024-05-02T09:00:05'', 0)])],
      alarms = 0\<rparr>"
    by code_simp
  then show ?thesis
    by (simp add: countdown_hour(1))
qed

section \<open>Manual adjustment\<close>

lemma inc_session_time_result:
  "inc_session_time delta s =
     s\<lparr>status := PAUSED,
       session_time := (if delta = 0 then 0 else max 0 (session_time s + delta))\<rparr>"
  by (cases s) (simp add: inc_session_time_def update_display_def Let_def pause_timer_def max_def)

text \<open>
  C4. In every state \<^verbatim>\<open>inc_session_time\<close> leaves the timer paused; pausing
  first makes no difference to its result, and the tick it ends with does not
  accrue; with \<open>delta = 0\<close> the session time becomes 0, otherwise it becomes
  the old session time plus \<open>delta\<close>, or 0 if that is negative; nothing else
  in the state changes. With a session time of 30, \<open>delta = -60\<close> gives 0.
\<close>

theorem inc_session_time_pauses_and_clamps:
  "status (inc_session_time delta s) = PAUSED \<and>
   inc_session_time delta s = inc_session_time delta (pause_timer s) \<and>
   session_time (inc_session_time delta s) =
     (if delta = 0 then 0 else max 0 (session_time s + delta)) \<and>
   0 \<le> session_time (inc_session_time delta s) \<and>
   (inc_session_time delta s)\<lparr>status := status s, session_time := session_time s\<rparr> = s \<and>
   (session_time s = 30 \<longrightarrow>
      session_time (inc_session_time (- 60) s) = 0 \<and>
      status (inc_session_time (- 60) s) = PAUSED)"
  by (simp add: inc_session_time_result pause_timer_def)

theorem inc_session_time_pauses_and_clamps_witness:
  "session_time
     \<lparr>status = RUNNING, session_time = 30, current_project = Some ''A'',
      current_project_hours = (0::rat), projects_data = [(''A'', [])], data_file = None,
      alarms = 0\<rparr> = 30 \<and>
   session_time (inc_session_time (- 60)
     \<lparr>status = RUNNING, session_time = 30, current_project = Some ''A'',
      current_project_hours = (0::rat), projects_data = [(''A'', [])], data_file = None,
      alarms = 0\<rparr>) = 0 \<and>
   status (inc_session_time (- 60)
     \<lparr>status = RUNNING, session_time = 30, current_project = Some ''A'',
      current_project_hours = (0::rat), projects_data = [(''A'', [])], data_file = None,
      alarms = 0\<rparr>) = PAUSED"
proof -
  let ?s = "\<lparr>status = RUNNING, session_time = 30, current_project = Some ''A'',
      current_project_hours = (0::rat), projects_data = [(''A'', [])], data_file = None,
      alarms = 0\<rparr>"
  have "session_time ?s = 30"
    by simp
  with inc_session_time_pauses_and_clamps [of "- 60" ?s] show ?thesis
    by blast
qed

section \<open>The session time is never negative\<close>

lemma on_project_selected_nonneg:
  assumes "0 \<le> session_time s"
  shows "on_project_selected ops now selected s = Inr (r, s') \<Longrightarrow> 0 \<le> session_time s'"
    and "on_project_selected ops now selected s = Inl (e, s') \<Longrightarrow> 0 \<le> session_time s'"
  using assms
  by (auto simp: on_project_selected_def Let_def
      split: if_splits sum.splits dest: save_data_cases)

lemma add_new_project_session:
  "add_new_project ops now typed s = Inr s' \<Longrightarrow> session_time s' = session_time s"
  "add_new_project ops now typed s = Inl (e, s') \<Longrightarrow> session_time s' = session_time s"
  by (auto simp: add_new_project_def Let_def split: if_splits sum.splits dest: save_data_cases)

lemma on_closing_session:
  "on_closing ops now s = Inr s' \<Longrightarrow> session_time s' = session_time s"
  "on_closing ops now s = Inl (e, s') \<Longrightarrow> session_time s' = session_time s"
  by (auto simp: on_closing_def pause_timer_def split: if_splits dest: save_data_cases)

lemma step_nonneg: "0 \<le> session_time s \<Longrightarrow> 0 \<le> session_time (step ops e s)"
proof (cases e)
  case Tick
  then show ?thesis by (simp add: update_display_nonneg)
next
  case Start
  then show ?thesis by (simp add: resume_timer_def update_display_nonneg)
next
  case Pause
  assume "0 \<le> session_time s"
  with Pause show ?thesis by (simp add: pause_timer_def)
next
  case Toggle
  assume "0 \<le> session_time s"
  with Toggle show ?thesis
    by (simp add: toggle_timer_def pause_timer_def resume_timer_def update_display_nonneg)
next
  case (Adjust delta)
  then show ?thesis by (simp add: inc_session_time_result)
next
  case (Select now selected)
  assume "0 \<le> session_time s"
  with Select show ?thesis
    by (auto split: sum.splits dest: on_project_selected_nonneg)
next
  case (Create now typed)
  assume "0 \<le> session_time s"
  with Create show ?thesis
    by (auto split: sum.splits dest: add_new_project_session)
next
  case (Close now)
  assume "0 \<le> session_time s"
  with Close show ?thesis
    by (auto split: sum.splits dest: on_closing_session)
qed

lemma run_nonneg: "0 \<le> session_time s \<Longrightarrow> 0 \<le> session_time (run ops evs s)"
  unfolding run_def by (induction evs arbitrary: s) (simp_all add: step_nonneg)

lemma load_data_session: "session_time (load_data ops file s) = session_time s"
  by (simp add: load_data_def Let_def split: option.splits sum.splits)

lemma init_session: "session_time (init ops file) = 0"
  by (simp add: init_def update_project_list_def load_data_session)

text \<open>
  C10. The program starts with a session time of 0, whatever the data file
  holds; every handler (tick, start, pause, toggle, adjustment, selection,
  creation, close) that is entered with a session time that is not negative
  ends with one, whether it returns or raises; so after every run of events
  from the start the session time is not negative.
\<close>

theorem session_time_never_negative:
  "session_time (init ops file) = 0 \<and>
   (0 \<le> session_time s \<longrightarrow> 0 \<le> session_time (step ops e s)) \<and>
   0 \<le> session_time (run ops evs (init ops file))"
  using init_session [of ops "file"] step_nonneg [of s ops e]
    run_nonneg [of "init ops file" ops evs]
  by simp

theorem session_time_never_negative_witness:
  "session_time (run decimal_ops
      [Select ''2024-05-02T09:00:00'' ''CountDown'', Start, Adjust (- 7200), Start,
       Create ''2024-05-02T09:00:05'' ''A'', Tick, Adjust (- 60), Close ''2024-05-02T09:00:09'']
      (init decimal_ops None)) = 0 \<and>
   0 \<le> session_time (step decimal_ops (Adjust (- 60)) (init decimal_ops None))"
proof -
  have "session_time (run decimal_ops
      [Select ''2024-05-02T09:00:00'' ''CountDown'', Start, Adjust (- 7200), Start,
       Create ''2024-05-02T09:00:05'' ''A'', Tick, Adjust (- 60), Close ''2024-05-02T09:00:09'']
      (init decimal_ops None)) \<le> 0"
    by code_simp
  moreover have "0 \<le> session_time (init decimal_ops None)"
    by code_simp
  ultimately show ?thesis
    using session_time_never_negative
      [of decimal_ops None "init decimal_ops None" "Adjust (- 60)"
        "[Select ''2024-05-02T09:00:00'' ''CountDown'', Start, Adjust (- 7200), Start,
          Create ''2024-05-02T09:00:05'' ''A'', Tick, Adjust (- 60),
          Close ''2024-05-02T09:00:09'']"]
    by simp
qed

section \<open>The ticks the program performs\<close>

lemma update_display_status:
  "status (update_display s) = status s \<or> status (update_display s) = PAUSED"
  using update_display_alarm [of s] by auto

lemma resume_timer_status: "status (resume_timer s) \<noteq> STOPPED"
  using update_display_status [of "s\<lparr>status := RUNNING\<rparr>"]
  by (auto simp: resume_timer_def)

lemma on_project_selected_status:
  "on_project_selected ops now selected s = Inr (r, s') \<Longrightarrow> status s' = status s"
  "on_project_selected ops now selected s = Inl (e, s') \<Longrightarrow> status s' = status s"
  by (auto simp: on_project_selected_def Let_def
      split: if_splits sum.splits dest: save_data_cases)

lemma add_new_project_status:
  "add_new_project ops now typed s = Inr s' \<Longrightarrow> status s' = status s"
  "add_new_project ops now typed s = Inl (e, s') \<Longrightarrow> status s' = status s"
  by (auto simp: add_new_project_def Let_def split: if_splits sum.splits dest: save_data_cases)

lemma on_closing_status:
  "on_closing ops now s = Inr s' \<Longrightarrow> status s' = status s \<or> status s' = PAUSED"
  "on_closing ops now s = Inl (e, s') \<Longrightarrow> status s' = status s \<or> status s' = PAUSED"
  by (auto simp: on_closing_def pause_timer_def split: if_splits dest: save_data_cases)

text \<open>While the timer is stopped, no callback is registered.\<close>

lemma step_scheduled:
  assumes "e = Tick \<longrightarrow> 0 < n" and "status s = STOPPED \<longrightarrow> n = 0"
  shows "status (step ops e s) = STOPPED \<longrightarrow> scheduled e s n = 0"
proof (cases e)
  case Tick
  with assms have "status s \<noteq> STOPPED"
    by auto
  with Tick update_display_status [of s] show ?thesis
    by auto
next
  case Start
  then show ?thesis
    by (simp add: resume_timer_status)
next
  case Pause
  then show ?thesis
    by (simp add: pause_timer_def)
next
  case Toggle
  then show ?thesis
    by (simp add: toggle_timer_def pause_timer_def resume_timer_status)
next
  case (Adjust delta)
  then show ?thesis
    by (simp add: inc_session_time_result)
next
  case (Select now selected)
  with assms(2) show ?thesis
    by (auto split: sum.splits dest: on_project_selected_status)
next
  case (Create now typed)
  with assms(2) show ?thesis
    by (auto split: sum.splits dest: add_new_project_status)
next
  case (Close now)
  with assms(2) show ?thesis
    by (auto split: sum.splits dest: on_closing_status)
qed

lemma performs_tick_not_stopped:
  "performs ops (pre @ [Tick]) s n \<Longrightarrow> status s = STOPPED \<longrightarrow> n = 0
     \<Longrightarrow> status (run ops pre s) \<noteq> STOPPED"
proof (induction pre arbitrary: s n)
  case Nil
  then show ?case
    by (auto simp: run_def)
next
  case (Cons e pre)
  from Cons.prems(1) have first: "e = Tick \<longrightarrow> 0 < n"
    and rest: "performs ops (pre @ [Tick]) (step ops e s) (scheduled e s n)"
    by simp_all
  from first Cons.prems(2)
  have "status (step ops e s) = STOPPED \<longrightarrow> scheduled e s n = 0"
    by (rule step_scheduled)
  with rest have "status (run ops pre (step ops e s)) \<noteq> STOPPED"
    by (rule Cons.IH)
  then show ?case
    by (simp add: run_def)
qed

text \<open>
  C3. Whenever the program performs a tick, after any events from its
  start, the timer is not stopped (no callback is registered before the
  timer has been started, and the status never returns to stopped); and
  when the status at that tick is not running, that is, the timer is
  paused, the tick leaves the session time, and the whole state, as they
  are. So a tick that changes the session time finds the timer running, and
  there it moves the time by one second, down for the countdown and up
  otherwise. The same holds for the tick that \<^verbatim>\<open>update_display\<close> is when
  called on any paused state with a session time that is not negative.
\<close>

theorem tick_accrues_only_while_running:
  "(performs ops (pre @ [Tick]) (init ops file) 0 \<longrightarrow>
      status (run ops pre (init ops file)) \<noteq> STOPPED \<and>
      (status (run ops pre (init ops file)) \<noteq> RUNNING \<longrightarrow>
         step ops Tick (run ops pre (init ops file)) = run ops pre (init ops file)) \<and>
      (session_time (step ops Tick (run ops pre (init ops file))) \<noteq>
         session_time (run ops pre (init ops file)) \<longrightarrow>
         status (run ops pre (init ops file)) = RUNNING) \<and>
      (status (run ops pre (init ops file)) = RUNNING \<longrightarrow>
         session_time (step ops Tick (run ops pre (init ops file))) =
           max 0 (if current_project (run ops pre (init ops file)) = Some ''CountDown''
                  then session_time (run ops pre (init ops file)) - 1
                  else session_time (run ops pre (init ops file)) + 1))) \<and>
   (status s = PAUSED \<and> 0 \<le> session_time s \<longrightarrow> update_display s = s)"
proof (intro conjI impI)
  let ?s = "run ops pre (init ops file)"
  assume run: "performs ops (pre @ [Tick]) (init ops file) 0"
  have time: "0 \<le> session_time ?s"
    by (intro run_nonneg) (simp add: init_session)
  from run show moving: "status ?s \<noteq> STOPPED"
    by (rule performs_tick_not_stopped) simp
  show still: "step ops Tick ?s = ?s" if "status ?s \<noteq> RUNNING"
  proof -
    from moving that have "status ?s = PAUSED"
      by (cases "status ?s") simp_all
    with time show ?thesis
      by (simp add: update_display_paused)
  qed
  show "status ?s = RUNNING" if moved: "session_time (step ops Tick ?s) \<noteq> session_time ?s"
  proof (rule ccontr)
    assume "status ?s \<noteq> RUNNING"
    then have "step ops Tick ?s = ?s"
      by (rule still)
    with moved show False
      by simp
  qed
  show "session_time (step ops Tick ?s) =
      max 0 (if current_project ?s = Some ''CountDown''
             then session_time ?s - 1 else session_time ?s + 1)"
    if "status ?s = RUNNING"
    using that update_display_accrual [of ?s] by simp
next
  assume "status s = PAUSED \<and> 0 \<le> session_time s"
  then show "update_display s = s"
    by (simp add: update_display_paused)
qed

theorem tick_accrues_only_while_running_witness:
  "performs decimal_ops
     ([Create ''2024-05-02T09:00:00'' ''A'', Start, Tick, Pause] @ [Tick])
     (init decimal_ops None) 0 \<and>
   status (run decimal_ops [Create ''2024-05-02T09:00:00'' ''A'', Start, Tick, Pause]
     (init decimal_ops None)) = PAUSED \<and>
   session_time (run decimal_ops [Create ''2024-05-02T09:00:00'' ''A'', Start, Tick, Pause]
     (init decimal_ops None)) = 2 \<and>
   session_time (step decimal_ops Tick
     (run decimal_ops [Create ''2024-05-02T09:00:00'' ''A'', Start, Tick, Pause]
        (init decimal_ops None))) = 2"
proof -
  let ?pre = "[Create ''2024-05-02T09:00:00'' ''A'', Start, Tick, Pause]"
  have performed: "performs decimal_ops (?pre @ [Tick]) (init decimal_ops None) 0"
    by code_simp
  have paused: "status (run decimal_ops ?pre (init decimal_ops None)) = PAUSED"
    by code_simp
  have two: "session_time (run decimal_ops ?pre (init decimal_ops None)) = 2"
    by code_simp
  have "status (run decimal_ops ?pre (init decimal_ops None)) \<noteq> RUNNING"
    by (simp only: paused) simp
  with tick_accrues_only_while_running
    [of decimal_ops ?pre None, THEN conjunct1, THEN mp,
     OF performed, THEN conjunct2, THEN conjunct1]
  have "step decimal_ops Tick (run decimal_ops ?pre (init decimal_ops None)) =
      run decimal_ops ?pre (init decimal_ops None)"
    by (rule mp)
  with performed paused two show ?thesis
    by (simp only: simp_thms)
qed

section \<open>Committing a session\<close>

lemma hours_of_decimal_0: "hours_of decimal_ops 0 = 0"
  by (simp add: decimal_ops_def round_tenth_def)

lemma hours_of_decimal_1800: "hours_of decimal_ops 1800 = 1 / 2"
  by (simp add: decimal_ops_def round_tenth_def)

lemma fzero_decimal: "fzero decimal_ops = 0"
  by (simp add: decimal_ops_def)

lemma update_length:
  "length (AList.update k v al) = (if k \<in> set (map fst al) then length al else Suc (length al))"
proof -
  have "length (AList.update k v al) = length (map fst (AList.update k v al))"
    by simp
  also have "\<dots> = (if k \<in> set (map fst al) then length al else Suc (length al))"
    by (simp only: update_keys) simp
  finally show ?thesis .
qed

lemma update_present_keys:
  "map_of al k = Some w \<Longrightarrow> map fst (AList.update k v al) = map fst al"
  by (simp add: update_keys map_of_eq_Some_iff weak_map_of_SomeI image_iff)
    (metis fst_conv map_of_SomeD)

lemma save_data_stored:
  assumes "current_project s = Some p" and "p \<noteq> ''CountDown''"
    and "map_of (projects_data s) p = Some entries"
  shows "save_data ops now s =
    Inr (s\<lparr>projects_data :=
              AList.update p (AList.update now (hours_of ops (session_time s)) entries)
                (projects_data s),
            data_file :=
              Some (AList.update p (AList.update now (hours_of ops (session_time s)) entries)
                (projects_data s))\<rparr>)"
  using assms by (simp add: save_data_def Let_def)

lemma save_data_countdown:
  "current_project s = Some ''CountDown'' \<Longrightarrow> save_data ops now s = Inr s"
  by (simp add: save_data_def)

lemma get_project_total_time_key:
  "n \<in> set (map fst (projects_data s)) \<Longrightarrow> \<exists>h. get_project_total_time ops s (Some n) = Inr h"
  by (cases "map_of (projects_data s) n")
    (auto simp: get_project_total_time_def map_of_eq_None_iff)

lemma select_after_commit:
  assumes "(if 0 < session_time s \<and> truthy (current_project s)
            then save_data ops now s else Inr s) = Inr s1"
  shows "\<exists>r s2. on_project_selected ops now selected s = Inr (r, s2) \<and>
           projects_data s2 = projects_data s1 \<and> data_file s2 = data_file s1"
proof (cases "selected = ''CountDown''")
  case True
  with assms show ?thesis
    by (simp add: on_project_selected_def)
next
  case other: False
  show ?thesis
  proof (cases "selected \<in> set (map fst (projects_data s1))")
    case True
    then have "selected \<in> set (map fst (projects_data (s1\<lparr>current_project := Some selected\<rparr>)))"
      by simp
    then obtain h where
      "get_project_total_time ops (s1\<lparr>current_project := Some selected\<rparr>) (Some selected) = Inr h"
      using get_project_total_time_key by blast
    with assms other True show ?thesis
      by (simp add: on_project_selected_def Let_def)
  next
    case False
    with assms other show ?thesis
      by (simp add: on_project_selected_def)
  qed
qed

lemma select_commits:
  assumes "current_project s = Some p" and "p \<noteq> []" and "p \<noteq> ''CountDown''"
    and "map_of (projects_data s) p = Some entries" and "0 < session_time s"
  shows "\<exists>r s'. on_project_selected ops now selected s = Inr (r, s') \<and>
           projects_data s' =
             AList.update p (AList.update now (hours_of ops (session_time s)) entries)
               (projects_data s) \<and>
           data_file s' = Some (projects_data s')"
proof -
  let ?s1 = "s\<lparr>projects_data :=
              AList.update p (AList.update now (hours_of ops (session_time s)) entries)
                (projects_data s),
            data_file :=
              Some (AList.update p (AList.update now (hours_of ops (session_time s)) entries)
                (projects_data s))\<rparr>"
  have "(if 0 < session_time s \<and> truthy (current_project s)
         then save_data ops now s else Inr s) = Inr ?s1"
    using assms by (simp add: truthy_def save_data_stored)
  from select_after_commit [OF this, of selected] show ?thesis
    by auto
qed

lemma select_without_commit:
  assumes "session_time s \<le> 0 \<or> current_project s = Some ''CountDown'' \<or>
           \<not> truthy (current_project s)"
  shows "\<exists>r s'. on_project_selected ops now selected s = Inr (r, s') \<and>
           projects_data s' = projects_data s \<and> data_file s' = data_file s"
proof -
  have "(if 0 < session_time s \<and> truthy (current_project s)
         then save_data ops now s else Inr s) = Inr s"
    using assms by (auto simp: save_data_countdown)
  from select_after_commit [OF this, of selected] show ?thesis .
qed

lemma close_commits:
  assumes "current_project s = Some p" and "p \<noteq> ''CountDown''"
    and "map_of (projects_data s) p = Some entries"
  shows "\<exists>s'. on_closing ops now s = Inr s' \<and>
           projects_data s' =
             AList.update p (AList.update now (hours_of ops (session_time s)) entries)
               (projects_data s) \<and>
           data_file s' = Some (projects_data s')"
  using assms by (simp add: on_closing_def pause_timer_def save_data_stored)

lemma close_countdown:
  "current_project s = Some ''CountDown'' \<Longrightarrow>
     \<exists>s'. on_closing ops now s = Inr s' \<and> projects_data s' = projects_data s \<and>
       data_file s' = data_file s"
  by (simp add: on_closing_def pause_timer_def save_data_countdown)

text \<open>
  C1 (as the program has it). The log of a project is a dictionary keyed by
  the time stamp, so a commit assigns the entry at \<open>now\<close>: the log gets one
  more entry when it has none at that time stamp and keeps its length, with
  the entry at that time stamp replaced, when it has one. When the current
  project is a stored project with a non-empty name other than the countdown
  and the session time is positive, a selection and a close both assign,
  in the log of the current project, the entry \<open>now\<close> with the hours
  \<^verbatim>\<open>round(session_time / 3600, 1)\<close>, leave every other log and the order of
  the projects as they are, and write the record to the file. A selection
  with a session time that is not positive, with the countdown as current
  project or with no current project changes neither the record nor the file;
  neither does a close with the countdown as current project.
\<close>

theorem session_committed_on_switch_and_close:
  "(current_project s = Some p \<and> p \<noteq> [] \<and> p \<noteq> ''CountDown'' \<and>
    map_of (projects_data s) p = Some entries \<and> 0 < session_time s \<longrightarrow>
      (let h = hours_of ops (session_time s);
           entries' = AList.update now h entries;
           pd' = AList.update p entries' (projects_data s)
       in (\<exists>r s'. on_project_selected ops now selected s = Inr (r, s') \<and>
             projects_data s' = pd' \<and> data_file s' = Some pd') \<and>
          (\<exists>s'. on_closing ops now s = Inr s' \<and>
             projects_data s' = pd' \<and> data_file s' = Some pd') \<and>
          map_of pd' p = Some entries' \<and>
          (\<forall>q. q \<noteq> p \<longrightarrow> map_of pd' q = map_of (projects_data s) q) \<and>
          map fst pd' = map fst (projects_data s) \<and>
          map_of entries' now = Some h \<and>
          (\<forall>t. t \<noteq> now \<longrightarrow> map_of entries' t = map_of entries t) \<and>
          length entries' =
            (if now \<in> set (map fst entries) then length entries else Suc (length entries)))) \<and>
   (session_time s \<le> 0 \<or> current_project s = Some ''CountDown'' \<or>
    \<not> truthy (current_project s) \<longrightarrow>
      (\<exists>r s'. on_project_selected ops now selected s = Inr (r, s') \<and>
         projects_data s' = projects_data s \<and> data_file s' = data_file s)) \<and>
   (current_project s = Some ''CountDown'' \<longrightarrow>
      (\<exists>s'. on_closing ops now s = Inr s' \<and>
         projects_data s' = projects_data s \<and> data_file s' = data_file s))"
proof (intro conjI impI)
  assume stored: "current_project s = Some p \<and> p \<noteq> [] \<and> p \<noteq> ''CountDown'' \<and>
    map_of (projects_data s) p = Some entries \<and> 0 < session_time s"
  have sel: "\<exists>r s'. on_project_selected ops now selected s = Inr (r, s') \<and>
      projects_data s' =
        AList.update p (AList.update now (hours_of ops (session_time s)) entries)
          (projects_data s) \<and>
      data_file s' = Some (projects_data s')"
    using stored by (intro select_commits) simp_all
  have clo: "\<exists>s'. on_closing ops now s = Inr s' \<and>
      projects_data s' =
        AList.update p (AList.update now (hours_of ops (session_time s)) entries)
          (projects_data s) \<and>
      data_file s' = Some (projects_data s')"
    using stored by (intro close_commits) simp_all
  have keys: "map fst (AList.update p (AList.update now (hours_of ops (session_time s)) entries)
      (projects_data s)) = map fst (projects_data s)"
    using stored by (intro update_present_keys) blast
  show "let h = hours_of ops (session_time s);
           entries' = AList.update now h entries;
           pd' = AList.update p entries' (projects_data s)
       in (\<exists>r s'. on_project_selected ops now selected s = Inr (r, s') \<and>
             projects_data s' = pd' \<and> data_file s' = Some pd') \<and>
          (\<exists>s'. on_closing ops now s = Inr s' \<and>
             projects_data s' = pd' \<and> data_file s' = Some pd') \<and>
          map_of pd' p = Some entries' \<and>
          (\<forall>q. q \<noteq> p \<longrightarrow> map_of pd' q = map_of (projects_data s) q) \<and>
          map fst pd' = map fst (projects_data s) \<and>
          map_of entries' now = Some h \<and>
          (\<forall>t. t \<noteq> now \<longrightarrow> map_of entries' t = map_of entries t) \<and>
          length entries' =
            (if now \<in> set (map fst entries) then length entries else Suc (length entries))"
    unfolding Let_def using sel clo keys
    by (auto simp: update_conv' update_length)
next
  assume "session_time s \<le> 0 \<or> current_project s = Some ''CountDown'' \<or>
    \<not> truthy (current_project s)"
  then show "\<exists>r s'. on_project_selected ops now selected s = Inr (r, s') \<and>
      projects_data s' = projects_data s \<and> data_file s' = data_file s"
    by (rule select_without_commit)
next
  assume "current_project s = Some ''CountDown''"
  then show "\<exists>s'. on_closing ops now s = Inr s' \<and>
      projects_data s' = projects_data s \<and> data_file s' = data_file s"
    by (rule close_countdown)
qed

theorem session_committed_on_switch_and_close_witness:
  "(\<exists>r s'. on_project_selected decimal_ops ''2024-05-02T09:00:00'' ''B''
        \<lparr>status = PAUSED, session_time = 1800, current_project = Some ''A'',
         current_project_hours = 0, projects_data = [(''A'', []), (''B'', [])],
         data_file = Some [(''A'', []), (''B'', [])], alarms = 0\<rparr> = Inr (r, s') \<and>
      projects_data s' = [(''A'', [(''2024-05-02T09:00:00'', 1 / 2)]), (''B'', [])] \<and>
      data_file s' = Some [(''A'', [(''2024-05-02T09:00:00'', 1 / 2)]), (''B'', [])]) \<and>
   (\<exists>s'. on_closing decimal_ops ''2024-05-02T09:00:00''
        \<lparr>status = PAUSED, session_time = 1800, current_project = Some ''A'',
         current_project_hours = 0, projects_data = [(''A'', []), (''B'', [])],
         data_file = Some [(''A'', []), (''B'', [])], alarms = 0\<rparr> = Inr s' \<and>
      projects_data s' = [(''A'', [(''2024-05-02T09:00:00'', 1 / 2)]), (''B'', [])]) \<and>
   (\<exists>r s'. on_project_selected decimal_ops ''2024-05-02T09:00:00'' ''B''
        \<lparr>status = PAUSED, session_time = 0, current_project = Some ''A'',
         current_project_hours = 0, projects_data = [(''A'', []), (''B'', [])],
         data_file = Some [(''A'', []), (''B'', [])], alarms = 0\<rparr> = Inr (r, s') \<and>
      projects_data s' = [(''A'', []), (''B'', [])] \<and>
      data_file s' = Some [(''A'', []), (''B'', [])])"
proof -
  let ?s = "\<lparr>status = PAUSED, session_time = 1800, current_project = Some ''A'',
         current_project_hours = (0::rat), projects_data = [(''A'', []), (''B'', [])],
         data_file = Some [(''A'', []), (''B'', [])], alarms = 0\<rparr>"
  let ?z = "\<lparr>status = PAUSED, session_time = 0, current_project = Some ''A'',
         current_project_hours = (0::rat), projects_data = [(''A'', []), (''B'', [])],
         data_file = Some [(''A'', []), (''B'', [])], alarms = 0\<rparr>"
  have stored: "current_project ?s = Some ''A'' \<and> ''A'' \<noteq> [] \<and> ''A'' \<noteq> ''CountDown'' \<and>
      map_of (projects_data ?s) ''A'' = Some [] \<and> 0 < session_time ?s"
    by simp
  have idle: "session_time ?z \<le> 0"
    by simp
  show ?thesis
    using stored idle
      session_committed_on_switch_and_close
        [of ?s "''A''" "[]" decimal_ops "''2024-05-02T09:00:00''" "''B''"]
      session_committed_on_switch_and_close
        [of ?z "''A''" "[]" decimal_ops "''2024-05-02T09:00:00''" "''B''"]
    by (simp add: Let_def hours_of_decimal_1800) blast
qed

theorem session_committed_counterexample:
  "on_project_selected decimal_ops ''2024-10-27T02:30:00'' ''A''
     \<lparr>status = PAUSED, session_time = 1800, current_project = Some ''A'',
      current_project_hours = 1, projects_data = [(''A'', [(''2024-10-27T02:30:00'', 1)])],
      data_file = Some [(''A'', [(''2024-10-27T02:30:00'', 1)])], alarms = 0\<rparr> =
   Inr (None,
     \<lparr>status = PAUSED, session_time = 0, current_project = Some ''A'',
      current_project_hours = 1 / 2,
      projects_data = [(''A'', [(''2024-10-27T02:30:00'', 1 / 2)])],
      data_file = Some [(''A'', [(''2024-10-27T02:30:00'', 1 / 2)])], alarms = 0\<rparr>) \<and>
   on_closing decimal_ops ''2024-05-02T09:00:00''
     \<lparr>status = PAUSED, session_time = 0, current_project = Some ''A'',
      current_project_hours = 0, projects_data = [(''A'', [])],
      data_file = Some [(''A'', [])], alarms = 0\<rparr> =
   Inr \<lparr>status = PAUSED, session_time = 0, current_project = Some ''A'',
      current_project_hours = 0,
      projects_data = [(''A'', [(''2024-05-02T09:00:00'', 0)])],
      data_file = Some [(''A'', [(''2024-05-02T09:00:00'', 0)])], alarms = 0\<rparr>"
  by code_simp

section \<open>Selecting a name that is not in the record\<close>

lemma select_absent_idle:
  assumes "selected \<noteq> ''CountDown''" and "selected \<notin> set (map fst (projects_data s))"
    and "session_time s \<le> 0 \<or> current_project s = Some ''CountDown'' \<or>
         \<not> truthy (current_project s)"
  shows "on_project_selected ops now selected s = Inr (Some 0, s)"
proof -
  have "(if 0 < session_time s \<and> truthy (current_project s)
         then save_data ops now s else Inr s) = Inr s"
    using assms(3) by (auto simp: save_data_countdown)
  with assms(1,2) show ?thesis
    by (simp add: on_project_selected_def)
qed

lemma select_absent_commit:
  assumes "selected \<noteq> ''CountDown''" and "selected \<notin> set (map fst (projects_data s))"
    and "current_project s = Some p" and "p \<noteq> []" and "p \<noteq> ''CountDown''"
    and "map_of (projects_data s) p = Some entries" and "0 < session_time s"
  shows "on_project_selected ops now selected s =
    Inr (Some 0,
      s\<lparr>projects_data :=
          AList.update p (AList.update now (hours_of ops (session_time s)) entries)
            (projects_data s),
        data_file :=
          Some (AList.update p (AList.update now (hours_of ops (session_time s)) entries)
            (projects_data s))\<rparr>)"
proof -
  let ?pd = "AList.update p (AList.update now (hours_of ops (session_time s)) entries)
      (projects_data s)"
  have "(if 0 < session_time s \<and> truthy (current_project s)
         then save_data ops now s else Inr s) =
        Inr (s\<lparr>projects_data := ?pd, data_file := Some ?pd\<rparr>)"
    using assms(3-7) by (simp add: truthy_def save_data_stored)
  moreover have "map fst ?pd = map fst (projects_data s)"
    using assms(6) by (rule update_present_keys)
  ultimately show ?thesis
    using assms(1,2) by (simp add: on_project_selected_def)
qed

text \<open>
  C7 (as the program has it). The session is committed before the selected
  name is looked up. Selecting a name that is neither the countdown nor a key
  of the record returns \<^verbatim>\<open>0\<close>, its only signal, and changes neither the
  current project nor the status, the session time or the stored total. When
  the session time is not positive, the countdown is the current project or
  there is no current project, nothing at all changes. When the current
  project is a stored project and the session time is positive, the session
  is committed as on any other selection: the entry is assigned in the log of
  the current project and the record is written to the file.
\<close>

theorem select_absent_project_commits_first:
  "selected \<noteq> ''CountDown'' \<and> selected \<notin> set (map fst (projects_data s)) \<longrightarrow>
     (session_time s \<le> 0 \<or> current_project s = Some ''CountDown'' \<or>
      \<not> truthy (current_project s) \<longrightarrow>
        on_project_selected ops now selected s = Inr (Some 0, s)) \<and>
     (current_project s = Some p \<and> p \<noteq> [] \<and> p \<noteq> ''CountDown'' \<and>
      map_of (projects_data s) p = Some entries \<and> 0 < session_time s \<longrightarrow>
        on_project_selected ops now selected s =
          Inr (Some 0,
            s\<lparr>projects_data :=
                AList.update p (AList.update now (hours_of ops (session_time s)) entries)
                  (projects_data s),
              data_file :=
                Some (AList.update p (AList.update now (hours_of ops (session_time s)) entries)
                  (projects_data s))\<rparr>))"
  using select_absent_idle [of selected s ops now]
    select_absent_commit [of selected s p entries ops now]
  by blast

theorem select_absent_project_commits_first_witness:
  "on_project_selected decimal_ops ''2024-05-02T09:00:00'' ''Z''
     \<lparr>status = RUNNING, session_time = 0, current_project = Some ''A'',
      current_project_hours = 0, projects_data = [(''A'', [])],
      data_file = Some [(''A'', [])], alarms = 0\<rparr> =
   Inr (Some 0,
     \<lparr>status = RUNNING, session_time = 0, current_project = Some ''A'',
      current_project_hours = 0, projects_data = [(''A'', [])],
      data_file = Some [(''A'', [])], alarms = 0\<rparr>) \<and>
   on_project_selected decimal_ops ''2024-05-02T09:00:00'' ''Z''
     \<lparr>status = RUNNING, session_time = 1800, current_project = Some ''A'',
      current_project_hours = 0, projects_data = [(''A'', [])],
      data_file = Some [(''A'', [])], alarms = 0\<rparr> =
   Inr (Some 0,
     \<lparr>status = RUNNING, session_time = 1800, current_project = Some ''A'',
      current_project_hours = 0,
      projects_data = [(''A'', [(''2024-05-02T09:00:00'', 1 / 2)])],
      data_file = Some [(''A'', [(''2024-05-02T09:00:00'', 1 / 2)])], alarms = 0\<rparr>)"
proof -
  let ?z = "\<lparr>status = RUNNING, session_time = 0, current_project = Some ''A'',
      current_project_hours = (0::rat), projects_data = [(''A'', [])],
      data_file = Some [(''A'', [])], alarms = 0\<rparr>"
  let ?s = "\<lparr>status = RUNNING, session_time = 1800, current_project = Some ''A'',
      current_project_hours = (0::rat), projects_data = [(''A'', [])],
      data_file = Some [(''A'', [])], alarms = 0\<rparr>"
  have absent: "''Z'' \<noteq> ''CountDown'' \<and> ''Z'' \<notin> set (map fst (projects_data ?z)) \<and>
      ''Z'' \<notin> set (map fst (projects_data ?s))"
    by simp
  have idle: "session_time ?z \<le> 0"
    by simp
  have stored: "current_project ?s = Some ''A'' \<and> ''A'' \<noteq> [] \<and> ''A'' \<noteq> ''CountDown'' \<and>
      map_of (projects_data ?s) ''A'' = Some [] \<and> 0 < session_time ?s"
    by simp
  show ?thesis
    using absent idle stored
      select_absent_project_commits_first
        [where selected = "''Z''" and s = ?z and p = "''A''" and entries = "[]"
           and ops = decimal_ops and now = "''2024-05-02T09:00:00''"]
      select_absent_project_commits_first
        [where selected = "''Z''" and s = ?s and p = "''A''" and entries = "[]"
           and ops = decimal_ops and now = "''2024-05-02T09:00:00''"]
    by (simp add: hours_of_decimal_1800)
qed

theorem select_absent_project_counterexample:
  "''Z'' \<noteq> ''CountDown'' \<and> ''Z'' \<notin> set (map fst [(''A'', ([] :: rat time_log))]) \<and>
   on_project_selected decimal_ops ''2024-05-02T09:00:00'' ''Z''
     \<lparr>status = RUNNING, session_time = 1800, current_project = Some ''A'',
      current_project_hours = 0, projects_data = [(''A'', [])],
      data_file = Some [(''A'', [])], alarms = 0\<rparr> =
   Inr (Some 0,
     \<lparr>status = RUNNING, session_time = 1800, current_project = Some ''A'',
      current_project_hours = 0,
      projects_data = [(''A'', [(''2024-05-02T09:00:00'', 1 / 2)])],
      data_file = Some [(''A'', [(''2024-05-02T09:00:00'', 1 / 2)])], alarms = 0\<rparr>)"
  by code_simp

section \<open>Creating a project\<close>

lemma update_absent:
  "k \<notin> set (map fst al) \<Longrightarrow> AList.update k v al = al @ [(k, v)]"
  by (induction al) auto

lemma update_last_key:
  "k \<notin> set (map fst al) \<Longrightarrow> AList.update k v (al @ [(k, w)]) = al @ [(k, v)]"
  by (induction al) auto

lemma map_of_append_last:
  "k \<notin> set (map fst al) \<Longrightarrow> map_of (al @ [(k, v)]) k = Some v"
  by (induction al) auto

lemma map_of_append_other:
  "q \<noteq> k \<Longrightarrow> map_of (al @ [(k, v)]) q = map_of al q"
  by (induction al) auto

lemma add_new_project_rejected:
  "strip ops typed = [] \<or> strip ops typed \<in> set (map fst (projects_data s)) \<Longrightarrow>
     add_new_project ops now typed s = Inr s"
  by (auto simp: add_new_project_def Let_def)

lemma add_new_project_created:
  assumes "strip ops typed \<noteq> []" and "strip ops typed \<notin> set (map fst (projects_data s))"
    and "strip ops typed \<noteq> ''CountDown''"
  shows "add_new_project ops now typed s =
    Inr (s\<lparr>projects_data :=
              projects_data s @ [(strip ops typed, [(now, hours_of ops (session_time s))])],
            current_project := Some (strip ops typed),
            data_file :=
              Some (projects_data s @ [(strip ops typed, [(now, hours_of ops (session_time s))])]),
            current_project_hours := fzero ops\<rparr>)"
proof -
  let ?s1 = "s\<lparr>projects_data := AList.update (strip ops typed) [] (projects_data s),
      current_project := Some (strip ops typed)\<rparr>"
  have pd1: "projects_data ?s1 = projects_data s @ [(strip ops typed, [])]"
    using assms(2) by (simp add: update_absent)
  then have "map_of (projects_data ?s1) (strip ops typed) = Some []"
    using assms(2) by (simp add: map_of_append_last del: map_of_append)
  with assms(3) have "save_data ops now ?s1 =
      Inr (?s1\<lparr>projects_data :=
                 AList.update (strip ops typed) (AList.update now (hours_of ops (session_time ?s1)) [])
                   (projects_data ?s1),
               data_file :=
                 Some (AList.update (strip ops typed)
                   (AList.update now (hours_of ops (session_time ?s1)) [])
                   (projects_data ?s1))\<rparr>)"
    by (intro save_data_stored) simp_all
  moreover have "AList.update (strip ops typed) (AList.update now (hours_of ops (session_time ?s1)) [])
      (projects_data ?s1) =
      projects_data s @ [(strip ops typed, [(now, hours_of ops (session_time s))])]"
    unfolding pd1 using assms(2) by (simp add: update_last_key)
  ultimately show ?thesis
    using assms(1,2) by (simp add: add_new_project_def Let_def)
qed

lemma add_new_project_countdown:
  assumes "strip ops typed = ''CountDown''" and "''CountDown'' \<notin> set (map fst (projects_data s))"
  shows "add_new_project ops now typed s =
    Inr (s\<lparr>projects_data := projects_data s @ [(''CountDown'', [])],
            current_project := Some ''CountDown'',
            current_project_hours := fzero ops\<rparr>)"
  using assms by (simp add: add_new_project_def Let_def save_data_countdown update_absent)

text \<open>
  C6. \<^verbatim>\<open>add_new_project\<close> creates the empty log
  (\<^verbatim>\<open>self.projects_data[project_name] = {}\<close>) and sets the stored total to
  0, but it persists through \<^verbatim>\<open>save_data\<close>, which first writes the
  running session into the log of the current project, by then the new one,
  and it never resets the session time, as \<^verbatim>\<open>on_project_selected\<close> does
  (``Reset session time when switching projects''). After 30 minutes on
  project A (the project is created, the session is set with thirty presses
  of the plus button), creating project B leaves the session at 1800 seconds
  and B with a log of one entry of 0.5 hours.
\<close>

theorem add_new_project_keeps_session:
  "run decimal_ops
     (Create ''2024-05-02T09:00:00'' ''A'' # replicate 30 (Adjust 60) @
      [Create ''2024-05-02T09:30:00'' ''B''])
     (init decimal_ops None) =
   \<lparr>status = PAUSED, session_time = 1800, current_project = Some ''B'',
    current_project_hours = 0,
    projects_data = [(''A'', [(''2024-05-02T09:00:00'', 0)]),
                     (''B'', [(''2024-05-02T09:30:00'', 1 / 2)])],
    data_file = Some [(''A'', [(''2024-05-02T09:00:00'', 0)]),
                      (''B'', [(''2024-05-02T09:30:00'', 1 / 2)])],
    alarms = 0\<rparr>"
  by code_simp

section \<open>The total of a project\<close>

lemma get_project_total_time_unset:
  "\<not> truthy (current_project s) \<Longrightarrow> get_project_total_time ops s project_name = Inr (fzero ops)"
  by (simp add: get_project_total_time_def)

lemma get_project_total_time_stored:
  "truthy (current_project s) \<Longrightarrow> map_of (projects_data s) n = Some entries \<Longrightarrow>
     get_project_total_time ops s (Some n) =
       Inr (round1 ops (foldl (fadd ops) (fzero ops) (map snd entries)))"
  by (simp add: get_project_total_time_def)

lemma get_project_total_time_missing:
  "truthy (current_project s) \<Longrightarrow> map_of (projects_data s) n = None \<Longrightarrow>
     get_project_total_time ops s (Some n) = Inl KeyError"
  by (simp add: get_project_total_time_def)

lemma get_project_total_time_same_record:
  "truthy (current_project s) \<Longrightarrow> truthy (current_project s') \<Longrightarrow>
     projects_data s' = projects_data s \<Longrightarrow>
     get_project_total_time ops s' project_name = get_project_total_time ops s project_name"
  by (cases project_name) (simp_all add: get_project_total_time_def)

text \<open>
  C8 (as the program has it). \<^verbatim>\<open>get_project_total_time\<close> first tests
  \<^verbatim>\<open>self.current_project\<close>: while no project is current (\<^verbatim>\<open>None\<close> or the
  empty name) it returns 0 for every argument. While a project is current,
  the result for a name in the record is the hours of that project's
  entries, added from 0 in the order of the log and rounded to one decimal;
  it is the rounded 0 (which is 0) for a project without entries, a
  \<^verbatim>\<open>KeyError\<close> for a name that is not in the record, and it is the same in
  any two states with the same record.
\<close>

theorem get_project_total_time_sum:
  "(\<not> truthy (current_project s) \<longrightarrow>
      get_project_total_time ops s project_name = Inr (fzero ops)) \<and>
   (truthy (current_project s) \<and> map_of (projects_data s) n = Some entries \<longrightarrow>
      get_project_total_time ops s (Some n) =
        Inr (round1 ops (foldl (fadd ops) (fzero ops) (map snd entries))) \<and>
      (entries = [] \<and> round1 ops (fzero ops) = fzero ops \<longrightarrow>
         get_project_total_time ops s (Some n) = Inr (fzero ops))) \<and>
   (truthy (current_project s) \<and> map_of (projects_data s) n = None \<longrightarrow>
      get_project_total_time ops s (Some n) = Inl KeyError) \<and>
   (truthy (current_project s) \<and> truthy (current_project s') \<and>
    projects_data s' = projects_data s \<longrightarrow>
      get_project_total_time ops s' project_name = get_project_total_time ops s project_name)"
proof (intro conjI impI)
  assume "\<not> truthy (current_project s)"
  then show "get_project_total_time ops s project_name = Inr (fzero ops)"
    by (rule get_project_total_time_unset)
next
  assume "truthy (current_project s) \<and> map_of (projects_data s) n = Some entries"
  then show "get_project_total_time ops s (Some n) =
      Inr (round1 ops (foldl (fadd ops) (fzero ops) (map snd entries)))"
    by (simp add: get_project_total_time_stored)
next
  assume "truthy (current_project s) \<and> map_of (projects_data s) n = Some entries"
    and "entries = [] \<and> round1 ops (fzero ops) = fzero ops"
  then show "get_project_total_time ops s (Some n) = Inr (fzero ops)"
    by (simp add: get_project_total_time_stored)
next
  assume "truthy (current_project s) \<and> map_of (projects_data s) n = None"
  then show "get_project_total_time ops s (Some n) = Inl KeyError"
    by (simp add: get_project_total_time_missing)
next
  assume "truthy (current_project s) \<and> truthy (current_project s') \<and>
    projects_data s' = projects_data s"
  then show "get_project_total_time ops s' project_name =
      get_project_total_time ops s project_name"
    by (simp add: get_project_total_time_same_record)
qed

theorem get_project_total_time_sum_witness:
  "get_project_total_time decimal_ops
     \<lparr>status = STOPPED, session_time = 0, current_project = Some ''A'',
      current_project_hours = 0,
      projects_data = [(''A'', [(''2024-05-01T10:00:00'', 1 / 2),
                                (''2024-05-02T09:00:00'', 3 / 10)]), (''B'', [])],
      data_file = None, alarms = 0\<rparr> (Some ''A'') = Inr (4 / 5) \<and>
   get_project_total_time decimal_ops
     \<lparr>status = STOPPED, session_time = 0, current_project = Some ''A'',
      current_project_hours = 0,
      projects_data = [(''A'', [(''2024-05-01T10:00:00'', 1 / 2),
                                (''2024-05-02T09:00:00'', 3 / 10)]), (''B'', [])],
      data_file = None, alarms = 0\<rparr> (Some ''B'') = Inr 0"
proof -
  let ?s = "\<lparr>status = STOPPED, session_time = 0, current_project = Some ''A'',
      current_project_hours = (0::rat),
      projects_data = [(''A'', [(''2024-05-01T10:00:00'', 1 / 2),
                                (''2024-05-02T09:00:00'', 3 / 10)]), (''B'', [])],
      data_file = None, alarms = 0\<rparr>"
  have a: "truthy (current_project ?s) \<and>
      map_of (projects_data ?s) ''A'' =
        Some [(''2024-05-01T10:00:00'', 1 / 2), (''2024-05-02T09:00:00'', 3 / 10)]"
    by (simp add: truthy_def)
  have b: "truthy (current_project ?s) \<and> map_of (projects_data ?s) ''B'' = Some []"
    by (simp add: truthy_def)
  have zero: "([] :: rat time_log) = [] \<and> round1 decimal_ops (fzero decimal_ops) = fzero decimal_ops"
    by (simp add: decimal_ops_def round_tenth_def)
  have sum: "round1 decimal_ops (foldl (fadd decimal_ops) (fzero decimal_ops)
      (map snd [(''2024-05-01T10:00:00'', 1 / 2 :: rat), (''2024-05-02T09:00:00'', 3 / 10)])) = 4 / 5"
    by (simp add: decimal_ops_def round_tenth_def)
  have "get_project_total_time decimal_ops ?s (Some ''A'') = Inr (4 / 5)"
    using get_project_total_time_sum
      [where s = ?s and ops = decimal_ops and n = "''A''"
         and entries = "[(''2024-05-01T10:00:00'', 1 / 2), (''2024-05-02T09:00:00'', 3 / 10)]",
       THEN conjunct2, THEN conjunct1, THEN mp, OF a, THEN conjunct1]
    by (simp only: sum)
  moreover have "get_project_total_time decimal_ops ?s (Some ''B'') = Inr 0"
    using get_project_total_time_sum
      [where s = ?s and ops = decimal_ops and n = "''B''" and entries = "[]",
       THEN conjunct2, THEN conjunct1, THEN mp, OF b, THEN conjunct2, THEN mp, OF zero]
    by (simp only: fzero_decimal)
  ultimately show ?thesis
    by (intro conjI)
qed

theorem get_project_total_time_counterexample:
  "get_project_total_time decimal_ops
     \<lparr>status = STOPPED, session_time = 0, current_project = Some ''A'',
      current_project_hours = 0,
      projects_data = [('''', [(''2024-05-01T10:00:00'', 1 / 2)]),
                       (''A'', [(''2024-05-02T09:00:00'', 3 / 10)])],
      data_file = None, alarms = 0\<rparr> (Some '''') = Inr (1 / 2) \<and>
   get_project_total_time decimal_ops
     \<lparr>status = STOPPED, session_time = 0, current_project = Some '''',
      current_project_hours = 0,
      projects_data = [('''', [(''2024-05-01T10:00:00'', 1 / 2)]),
                       (''A'', [(''2024-05-02T09:00:00'', 3 / 10)])],
      data_file = None, alarms = 0\<rparr> (Some '''') = Inr 0 \<and>
   get_project_total_time decimal_ops
     \<lparr>status = STOPPED, session_time = 0, current_project = None,
      current_project_hours = 0,
      projects_data = [('''', [(''2024-05-01T10:00:00'', 1 / 2)]),
                       (''A'', [(''2024-05-02T09:00:00'', 3 / 10)])],
      data_file = None, alarms = 0\<rparr> (Some ''A'') = Inr 0"
  by code_simp

section \<open>The most recent project\<close>

text \<open>
  When the record holds an entry, the scan returns a project that has an
  entry with the latest time stamp of the whole record (the first such
  project in the order of the record, since a later equal time stamp does
  not replace it, unless the time stamp is the empty string). When it holds
  none, the result is decided by the fallback alone.
\<close>

lemma scan_date_latest:
  "latest_of S acc \<Longrightarrow> latest_of (insert (p, d) S) (scan_date p d acc)"
proof (cases acc)
  case (Pair mp md)
  assume inv: "latest_of S acc"
  show ?thesis
  proof (cases md)
    case None
    with inv Pair have "mp = None" and "S = {}"
      by (cases mp; simp add: latest_of_def)+
    with Pair None show ?thesis
      by (simp add: scan_date_def latest_of_def)
  next
    case (Some e)
    with inv Pair obtain q where q: "mp = Some q" and mem: "(q, e) \<in> S"
      and top: "\<forall>(r, f) \<in> S. f \<le> e"
      by (cases mp) (auto simp: latest_of_def)
    show ?thesis
    proof (cases "e = [] \<or> d > e")
      case True
      then have "e \<le> d"
        by auto
      with top have "\<forall>(r, f) \<in> S. f \<le> d"
        by fastforce
      with True Pair Some q show ?thesis
        by (simp add: scan_date_def latest_of_def)
    next
      case False
      then have "d \<le> e"
        by auto
      with False Pair Some q mem top show ?thesis
        by (simp add: scan_date_def latest_of_def)
    qed
  qed
qed

lemma scan_dates_latest:
  "latest_of S acc \<Longrightarrow> latest_of (S \<union> {p} \<times> set ds) (fold (scan_date p) ds acc)"
proof (induction ds arbitrary: S acc)
  case Nil
  then show ?case by simp
next
  case (Cons d ds)
  from Cons.prems have "latest_of (insert (p, d) S) (scan_date p d acc)"
    by (rule scan_date_latest)
  then have "latest_of (insert (p, d) S \<union> {p} \<times> set ds) (fold (scan_date p) ds (scan_date p d acc))"
    by (rule Cons.IH)
  moreover have "insert (p, d) S \<union> {p} \<times> set ds = S \<union> {p} \<times> set (d # ds)"
    by auto
  ultimately show ?case
    by simp
qed

lemma scan_projects_latest:
  "latest_of S acc \<Longrightarrow> latest_of (S \<union> stamps pd) (fold scan_project pd acc)"
proof (induction pd arbitrary: S acc)
  case Nil
  then show ?case by (simp add: stamps_def)
next
  case (Cons x pd)
  obtain p entries where x: "x = (p, entries)"
    by (cases x)
  from Cons.prems have "latest_of (S \<union> {p} \<times> set (map fst entries)) (scan_project x acc)"
    unfolding scan_project_def x fst_conv snd_conv by (rule scan_dates_latest)
  then have "latest_of (S \<union> {p} \<times> set (map fst entries) \<union> stamps pd)
      (fold scan_project pd (scan_project x acc))"
    by (rule Cons.IH)
  moreover have "S \<union> {p} \<times> set (map fst entries) \<union> stamps pd = S \<union> stamps (x # pd)"
    by (auto simp: stamps_def x)
  ultimately show ?case
    by simp
qed

lemma get_most_recent_project_latest:
  assumes "stamps (projects_data s) \<noteq> {}"
  shows "\<exists>p d. get_most_recent_project s = Inr (Some p) \<and>
           (p, d) \<in> stamps (projects_data s) \<and>
           (\<forall>(q, e) \<in> stamps (projects_data s). e \<le> d)"
proof -
  have "latest_of ({} \<union> stamps (projects_data s)) (fold scan_project (projects_data s) (None, None))"
    by (rule scan_projects_latest) (simp add: latest_of_def)
  then have inv: "latest_of (stamps (projects_data s)) (fold scan_project (projects_data s) (None, None))"
    by simp
  obtain mp md where acc: "fold scan_project (projects_data s) (None, None) = (mp, md)"
    by (cases "fold scan_project (projects_data s) (None, None)")
  with inv assms obtain p d where "mp = Some p" and "md = Some d"
    and "(p, d) \<in> stamps (projects_data s)" and "\<forall>(q, e) \<in> stamps (projects_data s). e \<le> d"
    by (cases mp; cases md) (auto simp: latest_of_def)
  moreover from assms have "projects_data s \<noteq> []"
    by (auto simp: stamps_def)
  ultimately show ?thesis
    using acc by (auto simp: get_most_recent_project_def)
qed

lemma get_most_recent_project_no_entries:
  assumes "stamps (projects_data s) = {}"
  shows "get_most_recent_project s =
    (case projects_data s of
       [] \<Rightarrow> Inr None
     | [x] \<Rightarrow> Inl IndexError
     | x # (k, entries) # rest \<Rightarrow> Inr (Some k))"
proof -
  have "latest_of ({} \<union> stamps (projects_data s)) (fold scan_project (projects_data s) (None, None))"
    by (rule scan_projects_latest) (simp add: latest_of_def)
  with assms have "latest_of {} (fold scan_project (projects_data s) (None, None))"
    by simp
  then have "fold scan_project (projects_data s) (None, None) = (None, None)"
    by (auto simp: latest_of_def split: prod.splits option.splits)
  then show ?thesis
    by (auto simp: get_most_recent_project_def split: list.splits)
qed

text \<open>
  C5. The comment in \<^verbatim>\<open>get_most_recent_project\<close> says ``Fallback to first
  project if no dates found'', but the line under it takes
  \<^verbatim>\<open>list(self.projects_data.keys())[1]\<close>, the second key: for a record of
  the projects A and B without entries the result is B, not A, and for a
  record of the single project A without entries the index is out of range.
  \<^verbatim>\<open>load_data\<close> catches that \<^verbatim>\<open>IndexError\<close> and starts with an empty
  record.
\<close>

theorem get_most_recent_project_fallback_is_second:
  "get_most_recent_project
     \<lparr>status = STOPPED, session_time = 0, current_project = None,
      current_project_hours = (0::rat), projects_data = [(''A'', []), (''B'', [])],
      data_file = Some [(''A'', []), (''B'', [])], alarms = 0\<rparr> = Inr (Some ''B'') \<and>
   get_most_recent_project
     \<lparr>status = STOPPED, session_time = 0, current_project = None,
      current_project_hours = (0::rat), projects_data = [(''A'', [])],
      data_file = Some [(''A'', [])], alarms = 0\<rparr> = Inl IndexError \<and>
   init decimal_ops (Some [(''A'', [])]) =
     \<lparr>status = STOPPED, session_time = 0, current_project = Some ''CountDown'',
      current_project_hours = 0, projects_data = [],
      data_file = Some [(''A'', [])], alarms = 0\<rparr>"
  by code_simp

section \<open>The current project can always be looked up\<close>

text \<open>
  After the start and after every run of events the current project is the
  countdown or a key of the record, so the look-up in \<^verbatim>\<open>save_data\<close> does
  not raise in a state the program can reach.
\<close>

lemma stamps_keys: "(p, d) \<in> stamps pd \<Longrightarrow> p \<in> set (map fst pd)"
  by (force simp: stamps_def)

lemma get_most_recent_project_key:
  assumes "get_most_recent_project s = Inr (Some p)"
  shows "p \<in> set (map fst (projects_data s))"
proof (cases "stamps (projects_data s) = {}")
  case True
  from get_most_recent_project_no_entries [OF True] assms show ?thesis
    by (auto split: list.splits)
next
  case False
  from get_most_recent_project_latest [OF False] assms show ?thesis
    by (auto dest: stamps_keys)
qed

lemma consistent_cong:
  "current_project s' = current_project s \<Longrightarrow>
   map fst (projects_data s') = map fst (projects_data s) \<Longrightarrow> consistent s' = consistent s"
  by (simp add: consistent_def split: option.splits)

lemma update_display_project:
  "current_project (update_display s) = current_project s \<and>
   projects_data (update_display s) = projects_data s"
  by (simp add: update_display_def Let_def alarm_def pause_timer_def)

lemma save_data_keys:
  "save_data ops now s = Inr s' \<Longrightarrow>
     current_project s' = current_project s \<and>
     map fst (projects_data s') = map fst (projects_data s)"
  by (auto simp: save_data_def Let_def update_present_keys split: if_splits option.splits)

lemma save_data_keeps_consistent:
  "consistent s \<Longrightarrow> save_data ops now s = Inr s' \<Longrightarrow> consistent s'"
  using save_data_keys [of ops now s s'] consistent_cong [of s' s] by simp

lemma on_project_selected_consistent:
  assumes "consistent s"
  shows "on_project_selected ops now selected s = Inr (r, s') \<Longrightarrow> consistent s'"
    and "on_project_selected ops now selected s = Inl (e, s') \<Longrightarrow> consistent s'"
proof -
  let ?c = "if 0 < session_time s \<and> truthy (current_project s)
            then save_data ops now s else Inr s"
  have commit: "consistent s1" if "?c = Inr s1" for s1
    using that assms by (auto split: if_splits dest: save_data_keeps_consistent)
  have raise: "s1 = s" if "?c = Inl (e, s1)" for s1
    using that by (auto split: if_splits dest: save_data_cases(2))
  have after: "consistent s'"
    if c: "?c = Inr s1"
      and res: "on_project_selected ops now selected s = Inr (r, s') \<or>
                on_project_selected ops now selected s = Inl (e, s')" for s1
  proof (cases "selected = ''CountDown''")
    case True
    with c res have "s' = s1\<lparr>current_project := Some ''CountDown'',
        current_project_hours := fzero ops, session_time := 3600\<rparr>"
      by (auto simp: on_project_selected_def)
    then show ?thesis
      by (simp add: consistent_def)
  next
    case other: False
    show ?thesis
    proof (cases "selected \<in> set (map fst (projects_data s1))")
      case True
      with c res other have "current_project s' = Some selected \<and>
          projects_data s' = projects_data s1"
        by (auto simp: on_project_selected_def Let_def split: sum.splits)
      with True show ?thesis
        by (simp add: consistent_def)
    next
      case False
      with c res other have "s' = s1"
        by (auto simp: on_project_selected_def)
      with commit [OF c] show ?thesis
        by simp
    qed
  qed
  show "consistent s'" if res: "on_project_selected ops now selected s = Inr (r, s')"
  proof (cases ?c)
    case (Inl x)
    with res show ?thesis
      by (simp add: on_project_selected_def)
  next
    case (Inr s1)
    with res show ?thesis
      by (intro after [of s1]) simp_all
  qed
  show "consistent s'" if res: "on_project_selected ops now selected s = Inl (e, s')"
  proof (cases ?c)
    case (Inl x)
    with res have "?c = Inl (e, s')"
      by (simp add: on_project_selected_def)
    with raise assms show ?thesis
      by simp
  next
    case (Inr s1)
    with res show ?thesis
      by (intro after [of s1]) simp_all
  qed
qed

lemma add_new_project_consistent:
  assumes "consistent s"
  shows "add_new_project ops now typed s = Inr s' \<Longrightarrow> consistent s'"
    and "add_new_project ops now typed s = Inl (e, s') \<Longrightarrow> consistent s'"
proof -
  let ?s1 = "s\<lparr>projects_data := AList.update (strip ops typed) [] (projects_data s),
      current_project := Some (strip ops typed)\<rparr>"
  have new: "consistent ?s1"
    by (simp add: consistent_def dom_update)
  show "add_new_project ops now typed s = Inr s' \<Longrightarrow> consistent s'"
    using assms save_data_keeps_consistent [OF new, of ops now]
    by (auto simp: add_new_project_def Let_def split: if_splits sum.splits
        intro: consistent_cong [THEN iffD2])
  show "add_new_project ops now typed s = Inl (e, s') \<Longrightarrow> consistent s'"
    using assms new
    by (auto simp: add_new_project_def Let_def split: if_splits sum.splits
        dest: save_data_cases(2))
qed

lemma on_closing_consistent:
  assumes "consistent s"
  shows "on_closing ops now s = Inr s' \<Longrightarrow> consistent s'"
    and "on_closing ops now s = Inl (e, s') \<Longrightarrow> consistent s'"
proof -
  let ?s1 = "if status s = RUNNING then pause_timer s else s"
  have paused: "consistent ?s1"
    using assms consistent_cong [of "pause_timer s" s] by (simp add: pause_timer_def)
  show "on_closing ops now s = Inr s' \<Longrightarrow> consistent s'"
    unfolding on_closing_def using paused by (rule save_data_keeps_consistent)
  show "on_closing ops now s = Inl (e, s') \<Longrightarrow> consistent s'"
    unfolding on_closing_def using paused by (auto dest: save_data_cases(2))
qed

lemma step_consistent: "consistent s \<Longrightarrow> consistent (step ops e s)"
proof (cases e)
  case Tick
  assume "consistent s"
  with Tick show ?thesis
    using update_display_project [of s] consistent_cong [of "update_display s" s] by simp
next
  case Start
  assume "consistent s"
  with Start show ?thesis
    using update_display_project [of "s\<lparr>status := RUNNING\<rparr>"]
      consistent_cong [of "resume_timer s" s]
    by (simp add: resume_timer_def)
next
  case Pause
  assume "consistent s"
  with Pause show ?thesis
    using consistent_cong [of "pause_timer s" s] by (simp add: pause_timer_def)
next
  case Toggle
  assume "consistent s"
  with Toggle show ?thesis
    using update_display_project [of "s\<lparr>status := RUNNING\<rparr>"]
      consistent_cong [of "toggle_timer s" s]
    by (simp add: toggle_timer_def pause_timer_def resume_timer_def)
next
  case (Adjust delta)
  assume "consistent s"
  with Adjust show ?thesis
    using consistent_cong [of "inc_session_time delta s" s]
    by (simp add: inc_session_time_result)
next
  case (Select now selected)
  assume "consistent s"
  with Select show ?thesis
    by (auto split: sum.splits dest: on_project_selected_consistent)
next
  case (Create now typed)
  assume "consistent s"
  with Create show ?thesis
    by (auto split: sum.splits dest: add_new_project_consistent)
next
  case (Close now)
  assume "consistent s"
  with Close show ?thesis
    by (auto split: sum.splits dest: on_closing_consistent)
qed

lemma load_data_consistent: "consistent (load_data ops file s)"
proof (cases "file")
  case None
  then show ?thesis
    by (simp add: load_data_def consistent_def)
next
  case (Some pd)
  show ?thesis
  proof (cases "get_most_recent_project (s\<lparr>projects_data := pd\<rparr>)")
    case (Inl e)
    with Some show ?thesis
      by (simp add: load_data_def consistent_def)
  next
    case (Inr p)
    have key: "k \<in> set (map fst pd)" if "p = Some k" for k
      using get_most_recent_project_key [of "s\<lparr>projects_data := pd\<rparr>" k] Inr that by simp
    show ?thesis
    proof (cases p)
      case None
      with Some Inr show ?thesis
        by (simp add: load_data_def consistent_def truthy_def)
    next
      case (Some k)
      with key have "k \<in> fst ` set pd"
        by simp
      with \<open>file = Some pd\<close> Inr Some show ?thesis
        by (auto simp: load_data_def consistent_def Let_def split: sum.splits)
    qed
  qed
qed

lemma init_consistent: "consistent (init ops file) \<and> current_project (init ops file) \<noteq> None"
  using load_data_consistent [of ops "file"]
  by (auto simp: init_def update_project_list_def consistent_def truthy_def split: option.splits)

lemma run_consistent: "consistent s \<Longrightarrow> consistent (run ops evs s)"
  unfolding run_def by (induction evs arbitrary: s) (simp_all add: step_consistent)

lemma reachable_consistent: "consistent (run ops evs (init ops file))"
  using init_consistent by (intro run_consistent) blast

end
